theory Spec2Isabelle
  imports Main
begin

section \<open>Data model (src/lark/types.ts)\<close>

text \<open>
  Instants are epoch milliseconds. JavaScript numbers are doubles, which represent every
  integer of that magnitude exactly, so they are modelled as \<open>int\<close>. An optional field
  (\<open>x?: T\<close>, possibly \<open>undefined\<close>) is an \<open>option\<close>. Strings are \<open>string\<close>; a
  character stands for one UTF-16 code unit below 256.
\<close>

datatype RiskLevel = Low | Medium | High | Critical

datatype Decision = Approve | Deny | Message

datatype Status = Pending | Approved | Denied | Expired | MessageStatus

record PermissionRequest =
  requestId :: string
  tool :: string
  command :: "string option"
  description :: "string option"
  args :: "(string \<times> string) list option"
  workingDirectory :: string
  project :: string
  riskLevel :: RiskLevel
  timestamp :: int
  expiresAt :: int

record DecisionResponse =
  d_requestId :: string
  d_decision :: Decision
  d_message :: "string option"
  respondedAt :: int
  respondedBy :: "string option"

record StoredRequest =
  request :: PermissionRequest
  status :: Status
  decision :: "DecisionResponse option"
  larkMessageId :: "string option"
  createdAt :: int

section \<open>The volatile backend (src/store/memory-store.ts)\<close>

text \<open>
  \<open>MemoryStore\<close> holds two maps: the records and the pending timers. A timer handle
  is modelled by the instant at which it is due and by whether \<open>clearTimeout\<close> has been
  called on it. Every method runs at one instant \<open>now\<close>: the methods contain no
  \<open>await\<close>, and the successive \<open>Date.now()\<close> reads of one call are identified.
  The methods mutate the object held in the map in place and then write it back under the
  same key; the model returns the updated map.
\<close>

datatype Timeout = Timeout (due: int) (armed: bool)

record MemoryStore =
  store :: "string \<rightharpoonup> StoredRequest"
  timers :: "string \<rightharpoonup> Timeout"

text \<open>The delay \<open>setTimeout\<close> really waits: the runtime replaces a delay above
  \<open>2147483647\<close> ms, or below 1 ms, by 1 ms.\<close>

definition TIMEOUT_MAX :: int where
  "TIMEOUT_MAX = 2147483647"

definition setTimeoutDelay :: "int \<Rightarrow> int" where
  "setTimeoutDelay ms = (if ms > TIMEOUT_MAX \<or> ms < 1 then 1 else ms)"

definition clearTimeout :: "Timeout \<Rightarrow> Timeout" where
  "clearTimeout t = Timeout (due t) False"

definition newMemoryStore :: MemoryStore where
  "newMemoryStore = \<lparr>store = Map.empty, timers = Map.empty\<rparr>"

text \<open>\<open>MemoryStore.set\<close>: clear an existing timer, upsert, arm a timer when the record is
  not yet past its expiry. A cleared handle stays in the map when no new timer is armed.\<close>

definition Memory_set :: "int \<Rightarrow> MemoryStore \<Rightarrow> string \<Rightarrow> StoredRequest \<Rightarrow> MemoryStore" where
  "Memory_set now s rid data =
     (let timers1 = (case timers s rid of
                       Some existingTimer \<Rightarrow> (timers s)(rid \<mapsto> clearTimeout existingTimer)
                     | None \<Rightarrow> timers s);
          store1 = (store s)(rid \<mapsto> data);
          ttlMs = expiresAt (request data) - now
      in if ttlMs > 0
         then \<lparr>store = store1,
               timers = timers1(rid \<mapsto> Timeout (now + setTimeoutDelay ttlMs) True)\<rparr>
         else \<lparr>store = store1, timers = timers1\<rparr>)"

text \<open>\<open>MemoryStore.get\<close>: a pending record read at or after its expiry is flipped to
  expired in the map, and the flipped record is returned.\<close>

definition Memory_get :: "int \<Rightarrow> MemoryStore \<Rightarrow> string \<Rightarrow> StoredRequest option \<times> MemoryStore" where
  "Memory_get now s rid =
     (case store s rid of
        None \<Rightarrow> (None, s)
      | Some stored \<Rightarrow>
          if status stored = Pending \<and> now \<ge> expiresAt (request stored)
          then (let stored' = stored\<lparr>status := Expired\<rparr>
                in (Some stored', s\<lparr>store := (store s)(rid \<mapsto> stored')\<rparr>))
          else (Some stored, s))"

text \<open>Dropping the timer of a request: \<open>clearTimeout(timer); this.timers.delete(requestId)\<close>
  when a handle is present.\<close>

definition clearTimer :: "(string \<rightharpoonup> Timeout) \<Rightarrow> string \<Rightarrow> (string \<rightharpoonup> Timeout)" where
  "clearTimer ts rid = (case ts rid of Some timer \<Rightarrow> ts(rid := None) | None \<Rightarrow> ts)"

definition Memory_setDecision ::
  "int \<Rightarrow> MemoryStore \<Rightarrow> string \<Rightarrow> Decision \<Rightarrow> string option \<Rightarrow> string option
     \<Rightarrow> bool \<times> MemoryStore" where
  "Memory_setDecision now s rid dec by msg =
     (case store s rid of
        None \<Rightarrow> (False, s)
      | Some stored \<Rightarrow>
          if status stored \<noteq> Pending then (False, s)
          else if now \<ge> expiresAt (request stored)
          then (False, s\<lparr>store := (store s)(rid \<mapsto> stored\<lparr>status := Expired\<rparr>)\<rparr>)
          else
            (let st = (if dec = Approve then Approved
                       else if dec = Message then MessageStatus
                       else Denied);
                 stored' = stored\<lparr>status := st,
                             decision := Some \<lparr>d_requestId = rid, d_decision = dec,
                                               d_message = msg, respondedAt = now,
                                               respondedBy = by\<rparr>\<rparr>
             in (True, \<lparr>store = (store s)(rid \<mapsto> stored'),
                        timers = clearTimer (timers s) rid\<rparr>)))"

definition Memory_setExpired :: "MemoryStore \<Rightarrow> string \<Rightarrow> bool \<times> MemoryStore" where
  "Memory_setExpired s rid =
     (case store s rid of
        None \<Rightarrow> (False, s)
      | Some stored \<Rightarrow>
          if status stored \<noteq> Pending then (False, s)
          else (True, \<lparr>store = (store s)(rid \<mapsto> stored\<lparr>status := Expired\<rparr>),
                       timers = clearTimer (timers s) rid\<rparr>))"

definition Memory_delete :: "MemoryStore \<Rightarrow> string \<Rightarrow> MemoryStore" where
  "Memory_delete s rid = \<lparr>store = (store s)(rid := None), timers = clearTimer (timers s) rid\<rparr>"

text \<open>\<open>handleExpiration\<close> is what the one-shot timer runs: it flips a pending record and
  forgets the handle.\<close>

definition handleExpiration :: "MemoryStore \<Rightarrow> string \<Rightarrow> MemoryStore" where
  "handleExpiration s rid =
     (let store1 = (case store s rid of
                      Some stored \<Rightarrow>
                        if status stored = Pending
                        then (store s)(rid \<mapsto> stored\<lparr>status := Expired\<rparr>)
                        else store s
                    | None \<Rightarrow> store s)
      in \<lparr>store = store1, timers = (timers s)(rid := None)\<rparr>)"

text \<open>The timer of \<open>rid\<close> fires at \<open>now\<close> when it is armed and due.\<close>

definition timerDue :: "int \<Rightarrow> MemoryStore \<Rightarrow> string \<Rightarrow> bool" where
  "timerDue now s rid = (case timers s rid of Some t \<Rightarrow> armed t \<and> due t \<le> now | None \<Rightarrow> False)"

section \<open>The durable backend (src/store/kv-store.ts)\<close>

text \<open>
  The key-value client is an external collaborator with Redis semantics: a value written
  with \<open>{ex: n}\<close> is readable until \<open>n\<close> seconds after the write and gone from then on.
  An entry is the value and the instant at which it lapses; the server's clock and
  \<open>Date.now()\<close> are one clock, and every method of \<open>KVStore\<close> runs at one instant \<open>now\<close>.
  Values are serialised on write, so no object is shared between the store and a caller.
\<close>

type_synonym VercelKV = "string \<rightharpoonup> (StoredRequest \<times> int)"

definition kv_get :: "int \<Rightarrow> VercelKV \<Rightarrow> string \<Rightarrow> StoredRequest option" where
  "kv_get now kv key = (case kv key of
                          None \<Rightarrow> None
                        | Some (v, lapse) \<Rightarrow> if now < lapse then Some v else None)"

definition kv_set :: "int \<Rightarrow> VercelKV \<Rightarrow> string \<Rightarrow> StoredRequest \<Rightarrow> int \<Rightarrow> VercelKV" where
  "kv_set now kv key v ex = kv(key \<mapsto> (v, now + ex * 1000))"

definition kv_del :: "VercelKV \<Rightarrow> string \<Rightarrow> VercelKV" where
  "kv_del kv key = kv(key := None)"

definition KEY_PREFIX :: string where
  "KEY_PREFIX = ''claude-permission:''"

definition getKey :: "string \<Rightarrow> string" where
  "getKey rid = KEY_PREFIX @ rid"

text \<open>\<open>Math.ceil(ttlMs / 1000)\<close> on an integer number of milliseconds.\<close>

definition ceilSeconds :: "int \<Rightarrow> int" where
  "ceilSeconds ttlMs = - ((- ttlMs) div 1000)"

definition KV_set :: "int \<Rightarrow> VercelKV \<Rightarrow> string \<Rightarrow> StoredRequest \<Rightarrow> VercelKV" where
  "KV_set now kv rid data =
     (let key = getKey rid;
          ttlMs = expiresAt (request data) - now;
          ttlSeconds = max 1 (ceilSeconds ttlMs)
      in kv_set now kv key data ttlSeconds)"

definition KV_get :: "int \<Rightarrow> VercelKV \<Rightarrow> string \<Rightarrow> StoredRequest option" where
  "KV_get now kv rid = kv_get now kv (getKey rid)"

text \<open>The storage lifetime, in seconds, that \<open>KVStore.setDecision\<close> passes to its write.\<close>

definition decisionTtlSeconds :: "int \<Rightarrow> StoredRequest \<Rightarrow> int" where
  "decisionTtlSeconds now stored =
     (let ttlMs = expiresAt (request stored) - now in max 60 (ceilSeconds ttlMs))"

definition KV_setDecision ::
  "int \<Rightarrow> VercelKV \<Rightarrow> string \<Rightarrow> Decision \<Rightarrow> string option \<Rightarrow> bool \<times> VercelKV" where
  "KV_setDecision now kv rid dec by =
     (case KV_get now kv rid of
        None \<Rightarrow> (False, kv)
      | Some stored \<Rightarrow>
          if status stored \<noteq> Pending then (False, kv)
          else
            (let updated = stored\<lparr>status := (if dec = Approve then Approved else Denied),
                              decision := Some \<lparr>d_requestId = rid, d_decision = dec,
                                                d_message = None, respondedAt = now,
                                                respondedBy = by\<rparr>\<rparr>;
                 key = getKey rid;
                 ttlSeconds = decisionTtlSeconds now stored
             in (True, kv_set now kv key updated ttlSeconds)))"

definition KV_setExpired :: "int \<Rightarrow> VercelKV \<Rightarrow> string \<Rightarrow> bool \<times> VercelKV" where
  "KV_setExpired now kv rid =
     (case KV_get now kv rid of
        None \<Rightarrow> (False, kv)
      | Some stored \<Rightarrow>
          if status stored \<noteq> Pending then (False, kv)
          else (True, kv_set now kv (getKey rid) (stored\<lparr>status := Expired\<rparr>) 60))"

definition KV_delete :: "VercelKV \<Rightarrow> string \<Rightarrow> VercelKV" where
  "KV_delete kv rid = kv_del kv (getKey rid)"

section \<open>The store interface (src/store/types.ts; getStore in src/unnamed/part_001)\<close>

text \<open>
  \<open>getStore\<close> picks the backend from the environment; the handlers then call the methods
  of \<open>RequestStore\<close> on whichever they got. The callback handler passes a fourth argument
  (the message) to \<open>setDecision\<close>; \<open>KVStore.setDecision\<close> declares three parameters, so
  there the fourth is dropped.
\<close>

datatype RequestStore = MemoryBackend MemoryStore | KVBackend VercelKV

fun store_set :: "int \<Rightarrow> RequestStore \<Rightarrow> string \<Rightarrow> StoredRequest \<Rightarrow> RequestStore" where
  "store_set now (MemoryBackend s) rid data = MemoryBackend (Memory_set now s rid data)"
| "store_set now (KVBackend kv) rid data = KVBackend (KV_set now kv rid data)"

fun store_get :: "int \<Rightarrow> RequestStore \<Rightarrow> string \<Rightarrow> StoredRequest option \<times> RequestStore" where
  "store_get now (MemoryBackend s) rid =
     (case Memory_get now s rid of (r, s') \<Rightarrow> (r, MemoryBackend s'))"
| "store_get now (KVBackend kv) rid = (KV_get now kv rid, KVBackend kv)"

fun store_setDecision ::
  "int \<Rightarrow> RequestStore \<Rightarrow> string \<Rightarrow> Decision \<Rightarrow> string option \<Rightarrow> string option
     \<Rightarrow> bool \<times> RequestStore" where
  "store_setDecision now (MemoryBackend s) rid dec by msg =
     (case Memory_setDecision now s rid dec by msg of (b, s') \<Rightarrow> (b, MemoryBackend s'))"
| "store_setDecision now (KVBackend kv) rid dec by msg =
     (case KV_setDecision now kv rid dec by of (b, kv') \<Rightarrow> (b, KVBackend kv'))"

fun store_setExpired :: "int \<Rightarrow> RequestStore \<Rightarrow> string \<Rightarrow> bool \<times> RequestStore" where
  "store_setExpired now (MemoryBackend s) rid =
     (case Memory_setExpired s rid of (b, s') \<Rightarrow> (b, MemoryBackend s'))"
| "store_setExpired now (KVBackend kv) rid =
     (case KV_setExpired now kv rid of (b, kv') \<Rightarrow> (b, KVBackend kv'))"

text \<open>The record as it sits in the backend, read without going through a method: the map
  entry of the volatile backend, the readable entry of the durable one.\<close>

fun stored_at :: "int \<Rightarrow> RequestStore \<Rightarrow> string \<Rightarrow> StoredRequest option" where
  "stored_at now (MemoryBackend s) rid = store s rid"
| "stored_at now (KVBackend kv) rid = KV_get now kv rid"

section \<open>Risk classification (api/notify.ts)\<close>

text \<open>
  The patterns of \<open>determineRiskLevel\<close> are regular expressions built from literal
  characters, \<open>.\<close>, \<open>\s\<close>, the quantifiers \<open>+\<close> and \<open>*\<close> on one of these, and an
  optional literal group. A pattern is the list of its items in order. \<open>RegExp.test\<close>
  answers whether some substring of the text matches, which is what \<open>regex_test\<close>
  decides by trying every start position and every split of a quantifier. All patterns
  carry the flag \<open>i\<close>: a literal is compared without regard to the case of ASCII letters.
\<close>

datatype atom = Ch char | Dot | WS

datatype tok = One atom | Plus atom | Star atom | OptStr string

definition isWhite :: "char \<Rightarrow> bool" where
  "isWhite c = (c \<in> set [CHR 0x09, CHR 0x0A, CHR 0x0B, CHR 0x0C, CHR 0x0D, CHR 0x20, CHR 0xA0])"

definition asciiLower :: "char \<Rightarrow> char" where
  "asciiLower c =
     (case map_of (zip ''ABCDEFGHIJKLMNOPQRSTUVWXYZ'' ''abcdefghijklmnopqrstuvwxyz'') c of
        Some l \<Rightarrow> l
      | None \<Rightarrow> c)"

fun atom_ok :: "atom \<Rightarrow> char \<Rightarrow> bool" where
  "atom_ok (Ch a) c = (asciiLower a = asciiLower c)"
| "atom_ok Dot c = (c \<noteq> CHR 0x0A \<and> c \<noteq> CHR 0x0D)"
| "atom_ok WS c = isWhite c"

text \<open>What is left of the text after \<open>a*\<close> has consumed zero or more characters.\<close>

fun star_rests :: "atom \<Rightarrow> string \<Rightarrow> string list" where
  "star_rests a [] = [[]]"
| "star_rests a (c # cs) = (c # cs) # (if atom_ok a c then star_rests a cs else [])"

text \<open>What is left of the text after the literal \<open>w\<close>, if the text starts with it.\<close>

fun strip_lit :: "string \<Rightarrow> string \<Rightarrow> string option" where
  "strip_lit [] s = Some s"
| "strip_lit (a # w) [] = None"
| "strip_lit (a # w) (c # cs) = (if atom_ok (Ch a) c then strip_lit w cs else None)"

fun match_here :: "tok list \<Rightarrow> string \<Rightarrow> bool" where
  "match_here [] s = True"
| "match_here (One a # ts) s =
     (case s of [] \<Rightarrow> False | c # cs \<Rightarrow> atom_ok a c \<and> match_here ts cs)"
| "match_here (Plus a # ts) s =
     (case s of [] \<Rightarrow> False
      | c # cs \<Rightarrow> atom_ok a c \<and> list_ex (match_here ts) (star_rests a cs))"
| "match_here (Star a # ts) s = list_ex (match_here ts) (star_rests a s)"
| "match_here (OptStr w # ts) s =
     (match_here ts s \<or>
      (case strip_lit w s of Some rest \<Rightarrow> match_here ts rest | None \<Rightarrow> False))"

fun regex_test :: "tok list \<Rightarrow> string \<Rightarrow> bool" where
  "regex_test p [] = match_here p []"
| "regex_test p (c # cs) = (match_here p (c # cs) \<or> regex_test p cs)"

definition lit :: "string \<Rightarrow> tok list" where
  "lit w = map (\<lambda>c. One (Ch c)) w"

definition dangerousPatterns :: "tok list list" where
  "dangerousPatterns =
     [ lit ''rm'' @ [Plus WS] @ lit ''-rf'',
       lit ''rm'' @ [Plus WS, Star Dot] @ lit ''-f'',
       lit ''rmdir'',
       lit ''format'',
       lit ''mkfs'',
       lit ''dd'' @ [Plus WS] @ lit ''if='',
       lit ''>'' @ [Star WS] @ lit ''/dev'',
       lit ''chmod'' @ [Plus WS] @ lit ''777'',
       lit ''curl'' @ [Star Dot] @ lit ''|'' @ [Star WS, OptStr ''ba''] @ lit ''sh'',
       lit ''wget'' @ [Star Dot] @ lit ''|'' @ [Star WS, OptStr ''ba''] @ lit ''sh'' ]"

definition highRiskPatterns :: "tok list list" where
  "highRiskPatterns =
     [ lit ''git'' @ [Plus WS] @ lit ''push'' @ [Star Dot] @ lit ''-f'',
       lit ''git'' @ [Plus WS] @ lit ''reset'' @ [Star Dot] @ lit ''--hard'',
       lit ''npm'' @ [Plus WS] @ lit ''publish'',
       lit ''docker'' @ [Plus WS] @ lit ''rm'',
       lit ''kubectl'' @ [Plus WS] @ lit ''delete'',
       lit ''drop'' @ [Plus WS] @ lit ''database'',
       lit ''truncate'' @ [Plus WS] @ lit ''table'' ]"

definition mediumRiskPatterns :: "tok list list" where
  "mediumRiskPatterns =
     [ lit ''npm'' @ [Plus WS] @ lit ''install'',
       lit ''pip'' @ [Plus WS] @ lit ''install'',
       lit ''git'' @ [Plus WS] @ lit ''checkout'',
       lit ''git'' @ [Plus WS] @ lit ''merge'',
       lit ''docker'' @ [Plus WS] @ lit ''run'',
       lit ''kubectl'' @ [Plus WS] @ lit ''apply'' ]"

text \<open>The loop \<open>for (const pattern of patterns) if (pattern.test(cmdStr)) return ...\<close>:
  whether it returns, scanning the list in order.\<close>

fun anyPatternMatches :: "tok list list \<Rightarrow> string \<Rightarrow> bool" where
  "anyPatternMatches [] cmdStr = False"
| "anyPatternMatches (pattern # rest) cmdStr =
     (if regex_test pattern cmdStr then True else anyPatternMatches rest cmdStr)"

definition determineRiskLevel :: "string \<Rightarrow> string option \<Rightarrow> RiskLevel" where
  "determineRiskLevel toolName cmd =
     (let cmdStr = (case cmd of Some c \<Rightarrow> c | None \<Rightarrow> [])
      in if anyPatternMatches dangerousPatterns cmdStr then Critical
         else if anyPatternMatches highRiskPatterns cmdStr then High
         else if anyPatternMatches mediumRiskPatterns cmdStr then Medium
         else if toolName = ''Bash'' then Medium
         else Low)"

text \<open>
  The classification as the specification words it, for comparison with the code: the
  three tiers laid out as one cascade, critical first, then high, then medium; the first
  pattern of the cascade that matches the command text determines the result; when none
  matches, the shell tool gets medium and any other tool low.
\<close>

definition riskCascade :: "(tok list \<times> RiskLevel) list" where
  "riskCascade =
     map (\<lambda>p. (p, Critical)) dangerousPatterns @
     map (\<lambda>p. (p, High)) highRiskPatterns @
     map (\<lambda>p. (p, Medium)) mediumRiskPatterns"

definition classify :: "string \<Rightarrow> string option \<Rightarrow> RiskLevel" where
  "classify toolName cmd =
     (case find (\<lambda>(p, tier). regex_test p (case cmd of Some c \<Rightarrow> c | None \<Rightarrow> [])) riskCascade of
        Some (p, tier) \<Rightarrow> tier
      | None \<Rightarrow> if toolName = ''Bash'' then Medium else Low)"

section \<open>Shared helpers of the handlers\<close>

text \<open>JavaScript truthiness of an optional string: \<open>undefined\<close> and \<open>''\<close> are falsy.\<close>

definition truthy :: "string option \<Rightarrow> bool" where
  "truthy x = (case x of Some s \<Rightarrow> s \<noteq> [] | None \<Rightarrow> False)"

text \<open>\<open>String.prototype.trim\<close>: white space and line terminators go from both ends.\<close>

definition trim :: "string \<Rightarrow> string" where
  "trim s = rev (dropWhile isWhite (rev (dropWhile isWhite s)))"

text \<open>\<open>verifyApiKey\<close> (api/notify.ts and the status endpoint): no configured key disables
  the check; otherwise the header must be \<open>Bearer \<close> followed by the key.\<close>

definition verifyApiKey :: "string option \<Rightarrow> string option \<Rightarrow> bool" where
  "verifyApiKey apiKey authHeader =
     (if \<not> truthy apiKey then True
      else case authHeader of
             None \<Rightarrow> False
           | Some h \<Rightarrow> if take 7 h \<noteq> ''Bearer '' then False else Some (drop 7 h) = apiKey)"

text \<open>
  The chat client is an external collaborator. The handlers' calls to it are recorded in
  a log; whether a call succeeds or throws is an input of the handler. A handler runs
  without another invocation interleaved, and the store's own calls are taken to succeed.
\<close>

datatype LarkCall =
    SendPermissionRequest PermissionRequest
  | UpdateWithDecision string PermissionRequest Decision "string option" "string option"
  | UpdateAsExpired string PermissionRequest

record World =
  backend :: RequestStore
  larkLog :: "LarkCall list"

datatype 'a ApiResponse = ApiError string | ApiData 'a

section \<open>The callback endpoint (api/lark/callback.ts)\<close>

datatype ToastType = Warning | ErrorToast | Info | Success

datatype CallbackJson =
    ErrorJson string
  | EmptyJson
  | ChallengeJson string
  | Toast ToastType string

type_synonym CallbackResponse = "nat \<times> CallbackJson"

text \<open>The part of a card-action event the handler reads: \<open>header.token\<close>,
  \<open>event.operator.open_id\<close>, and of \<open>event.action\<close> the two entries of \<open>value\<close>, the
  \<open>input_value\<close> and the \<open>form_value\<close>. The entries of \<open>value\<close> arrive as strings or
  not at all.\<close>

record LarkCardCallback =
  header_token :: string
  operator_open_id :: string
  value_requestId :: "string option"
  value_decision :: "string option"
  input_value :: "string option"
  form_value :: "(string \<rightharpoonup> string) option"

datatype CallbackBody =
    UrlVerification string string
  | CardActionTrigger LarkCardCallback
  | OtherEvent

definition verifyEventToken :: "string \<Rightarrow> string \<Rightarrow> bool" where
  "verifyEventToken eventToken verificationToken = (eventToken = verificationToken)"

text \<open>\<open>handleUrlVerification\<close>; the first argument of \<open>UrlVerification\<close> is the challenge,
  the second the token.\<close>

definition handleUrlVerification :: "string option \<Rightarrow> string \<Rightarrow> string \<Rightarrow> CallbackResponse" where
  "handleUrlVerification verificationToken challenge token =
     (if truthy verificationToken \<and> Some token \<noteq> verificationToken
      then (401, ErrorJson ''Invalid verification token'')
      else (200, ChallengeJson challenge))"

definition parseDecision :: "string \<Rightarrow> Decision option" where
  "parseDecision d =
     (if d = ''approve'' then Some Approve
      else if d = ''deny'' then Some Deny
      else if d = ''message'' then Some Message
      else None)"

definition statusText :: "Status \<Rightarrow> string" where
  "statusText st =
     (case st of Pending \<Rightarrow> ''pending'' | Approved \<Rightarrow> ''approved'' | Denied \<Rightarrow> ''denied''
      | Expired \<Rightarrow> ''expired'' | MessageStatus \<Rightarrow> ''message'')"

text \<open>\<open>action.form_value?.user_message || action.input_value\<close>.\<close>

definition rawUserMessage :: "LarkCardCallback \<Rightarrow> string option" where
  "rawUserMessage body =
     (let fromForm = (case form_value body of
                        Some fv \<Rightarrow> fv ''user_message''
                      | None \<Rightarrow> None)
      in if truthy fromForm then fromForm else input_value body)"

text \<open>The \<open>try\<close> block of \<open>handleCardAction\<close>. The three instants are those of
  \<open>store.get\<close>, of the handler's own \<open>Date.now()\<close> and of the store call that follows.
  \<open>larkOk\<close> says whether creating the chat client and updating the card succeed; when
  they throw, the \<open>catch\<close> answers with an error toast and the store keeps what was
  already written.\<close>

definition processCardAction ::
  "int \<Rightarrow> int \<Rightarrow> int \<Rightarrow> bool \<Rightarrow> World \<Rightarrow> string \<Rightarrow> Decision \<Rightarrow> string \<Rightarrow> string option
     \<Rightarrow> CallbackResponse \<times> World" where
  "processCardAction tGet tNow tOp larkOk w rid dec openId userMessage =
     (case store_get tGet (backend w) rid of
        (None, st1) \<Rightarrow>
          ((200, Toast ErrorToast ''Request not found or already processed''),
           w\<lparr>backend := st1\<rparr>)
      | (Some stored, st1) \<Rightarrow>
          if status stored \<noteq> Pending
          then ((200, Toast Info (''Request already '' @ statusText (status stored))),
                w\<lparr>backend := st1\<rparr>)
          else if tNow \<ge> expiresAt (request stored)
          then
            (let st2 = snd (store_setExpired tOp st1 rid) in
             case larkMessageId stored of
               Some mid \<Rightarrow>
                 if mid = []
                 then ((200, Toast ErrorToast ''Request has expired''), w\<lparr>backend := st2\<rparr>)
                 else if larkOk
                 then ((200, Toast ErrorToast ''Request has expired''),
                       \<lparr>backend = st2,
                        larkLog = larkLog w @ [UpdateAsExpired mid (request stored)]\<rparr>)
                 else ((200, Toast ErrorToast ''Failed to process action''),
                       w\<lparr>backend := st2\<rparr>)
             | None \<Rightarrow>
                 ((200, Toast ErrorToast ''Request has expired''), w\<lparr>backend := st2\<rparr>))
          else
            (case store_setDecision tOp st1 rid dec (Some openId) userMessage of
               (success, st2) \<Rightarrow>
                 if \<not> success
                 then ((200, Toast ErrorToast ''Failed to process decision''),
                       w\<lparr>backend := st2\<rparr>)
                 else
                   (let done =
                          (if dec = Approve then (200, Toast Success ''Approved successfully'')
                           else if dec = Message
                           then (200, Toast Success ''Message sent successfully'')
                           else (200, Toast Info ''Denied successfully''))
                    in case larkMessageId stored of
                         Some mid \<Rightarrow>
                           if mid = [] then (done, w\<lparr>backend := st2\<rparr>)
                           else if larkOk
                           then (done,
                                 \<lparr>backend = st2,
                                  larkLog = larkLog w @
                                    [UpdateWithDecision mid (request stored) dec
                                       (Some openId) userMessage]\<rparr>)
                           else ((200, Toast ErrorToast ''Failed to process action''),
                                 w\<lparr>backend := st2\<rparr>)
                       | None \<Rightarrow> (done, w\<lparr>backend := st2\<rparr>))))"

definition handleCardAction ::
  "string option \<Rightarrow> int \<Rightarrow> int \<Rightarrow> int \<Rightarrow> bool \<Rightarrow> World \<Rightarrow> LarkCardCallback
     \<Rightarrow> CallbackResponse \<times> World" where
  "handleCardAction verificationToken tGet tNow tOp larkOk w body =
     (if truthy verificationToken \<and>
         \<not> (case verificationToken of
              Some vt \<Rightarrow> verifyEventToken (header_token body) vt
            | None \<Rightarrow> False)
      then ((401, ErrorJson ''Invalid event token''), w)
      else if \<not> truthy (value_requestId body) \<or> \<not> truthy (value_decision body)
      then ((200, EmptyJson), w)
      else
        case (value_requestId body, value_decision body) of
          (Some rid, Some d) \<Rightarrow>
            (case parseDecision d of
               None \<Rightarrow> ((400, ErrorJson ''Invalid decision''), w)
             | Some dec \<Rightarrow>
                 if dec = Message
                 then
                   (case rawUserMessage body of
                      None \<Rightarrow> ((200, Toast Warning ''Please enter a message''), w)
                    | Some userMessage \<Rightarrow>
                        if userMessage = [] \<or> trim userMessage = []
                        then ((200, Toast Warning ''Please enter a message''), w)
                        else processCardAction tGet tNow tOp larkOk w rid dec
                               (operator_open_id body) (Some (trim userMessage)))
                 else processCardAction tGet tNow tOp larkOk w rid dec
                        (operator_open_id body) None)
        | _ \<Rightarrow> ((200, EmptyJson), w))"

definition callback_handler ::
  "string \<Rightarrow> string option \<Rightarrow> int \<Rightarrow> int \<Rightarrow> int \<Rightarrow> bool \<Rightarrow> World \<Rightarrow> CallbackBody
     \<Rightarrow> CallbackResponse \<times> World" where
  "callback_handler httpMethod verificationToken tGet tNow tOp larkOk w body =
     (if httpMethod \<noteq> ''POST'' then ((405, ErrorJson ''Method not allowed''), w)
      else case body of
             UrlVerification challenge token \<Rightarrow>
               (handleUrlVerification verificationToken challenge token, w)
           | CardActionTrigger b \<Rightarrow>
               handleCardAction verificationToken tGet tNow tOp larkOk w b
           | OtherEvent \<Rightarrow> ((200, EmptyJson), w))"

text \<open>An action event that gets past the handler's checks and reaches the store for request
  \<open>rid\<close>: the event token is accepted, the request id is \<open>rid\<close> and not empty, and the
  decision is an approval, a denial, or a message whose text is not blank.\<close>

definition touchesStore :: "string option \<Rightarrow> LarkCardCallback \<Rightarrow> string \<Rightarrow> bool" where
  "touchesStore verificationToken body rid =
     ((\<not> truthy verificationToken \<or> verificationToken = Some (header_token body)) \<and>
      value_requestId body = Some rid \<and> rid \<noteq> [] \<and>
      (value_decision body = Some ''approve'' \<or> value_decision body = Some ''deny'' \<or>
       (value_decision body = Some ''message'' \<and>
        (case rawUserMessage body of Some m \<Rightarrow> trim m \<noteq> [] | None \<Rightarrow> False))))"

section \<open>The status endpoint (GET /api/status/:id, src/unnamed/part_003)\<close>

datatype PollStatus = Known Status | NotFound

record StatusResponse =
  sr_status :: PollStatus
  sr_decision :: "Decision option"
  sr_message :: "string option"
  sr_respondedAt :: "int option"

text \<open>The response built from a record that is not answered as expired.\<close>

definition statusOf :: "StoredRequest \<Rightarrow> StatusResponse" where
  "statusOf stored =
     (case decision stored of
        None \<Rightarrow> \<lparr>sr_status = Known (status stored), sr_decision = None,
                 sr_message = None, sr_respondedAt = None\<rparr>
      | Some d \<Rightarrow> \<lparr>sr_status = Known (status stored), sr_decision = Some (d_decision d),
                   sr_message = (if truthy (d_message d) then d_message d else None),
                   sr_respondedAt = Some (respondedAt d)\<rparr>)"

definition status_handler ::
  "string \<Rightarrow> string option \<Rightarrow> string option \<Rightarrow> string option \<Rightarrow> int \<Rightarrow> int \<Rightarrow> int
     \<Rightarrow> RequestStore \<Rightarrow> (nat \<times> StatusResponse ApiResponse) \<times> RequestStore" where
  "status_handler httpMethod apiKey authHeader qid tGet tNow tOp st =
     (if httpMethod \<noteq> ''GET'' then ((405, ApiError ''Method not allowed''), st)
      else if \<not> verifyApiKey apiKey authHeader then ((401, ApiError ''Unauthorized''), st)
      else case qid of
             None \<Rightarrow> ((400, ApiError ''Missing request ID''), st)
           | Some rid \<Rightarrow>
               if rid = [] then ((400, ApiError ''Missing request ID''), st)
               else
                 (case store_get tGet st rid of
                    (None, st1) \<Rightarrow>
                      ((200, ApiData \<lparr>sr_status = NotFound, sr_decision = None,
                                      sr_message = None, sr_respondedAt = None\<rparr>), st1)
                  | (Some stored, st1) \<Rightarrow>
                      if status stored = Pending \<and> tNow \<ge> expiresAt (request stored)
                      then ((200, ApiData \<lparr>sr_status = Known Expired, sr_decision = None,
                                            sr_message = None, sr_respondedAt = None\<rparr>),
                            snd (store_setExpired tOp st1 rid))
                      else ((200, ApiData (statusOf stored)), st1)))"

text \<open>The answer \<open>{status: 'pending'}\<close>.\<close>

definition pendingAnswer :: StatusResponse where
  "pendingAnswer =
     \<lparr>sr_status = Known Pending, sr_decision = None, sr_message = None, sr_respondedAt = None\<rparr>"

text \<open>The answer \<open>{status: 'expired'}\<close>.\<close>

definition expiredAnswer :: StatusResponse where
  "expiredAnswer =
     \<lparr>sr_status = Known Expired, sr_decision = None, sr_message = None, sr_respondedAt = None\<rparr>"

definition notFoundAnswer :: StatusResponse where
  "notFoundAnswer =
     \<lparr>sr_status = NotFound, sr_decision = None, sr_message = None, sr_respondedAt = None\<rparr>"

section \<open>The create endpoint (api/notify.ts)\<close>

record NotifyRequest =
  n_tool :: "string option"
  n_command :: "string option"
  n_description :: "string option"
  n_args :: "(string \<times> string) list option"
  n_workingDirectory :: "string option"
  n_project :: "string option"
  n_riskLevel :: "RiskLevel option"

record NotifyResponse =
  r_requestId :: string
  r_expiresAt :: int

definition DEFAULT_TIMEOUT :: int where
  "DEFAULT_TIMEOUT = 5 * 60 * 1000"

text \<open>\<open>workingDirectory.split('/').pop()\<close>: what follows the last slash.\<close>

definition lastSegment :: "string \<Rightarrow> string" where
  "lastSegment s = rev (takeWhile (\<lambda>c. c \<noteq> CHR ''/'') (rev s))"

text \<open>
  The handler's inputs beside the request: the configured API key, the result of
  \<open>parseInt(process.env.LARK_TIMEOUT || '')\<close> (\<open>None\<close> for \<open>NaN\<close>), the identifier
  \<open>randomUUID()\<close> returns, the instant \<open>now\<close> the handler reads and the later instant
  \<open>tSet\<close> of \<open>store.set\<close>, and the outcome of creating the chat client and sending the
  card: \<open>Inr\<close> the message id, or \<open>Inl\<close> the message of the error thrown.
\<close>

text \<open>The \<open>PermissionRequest\<close> object the handler builds once the required fields are
  known to be present: the identifier and timestamps, the risk level, the project name
  and the object literal, which has no \<open>description\<close> entry.\<close>

definition buildPermissionRequest ::
  "int option \<Rightarrow> string \<Rightarrow> int \<Rightarrow> string \<Rightarrow> string \<Rightarrow> NotifyRequest \<Rightarrow> PermissionRequest" where
  "buildPermissionRequest larkTimeout uuid now bodyTool bodyDir body =
     (let timeout = (case larkTimeout of
                       Some t \<Rightarrow> if t \<noteq> 0 then t else DEFAULT_TIMEOUT
                     | None \<Rightarrow> DEFAULT_TIMEOUT);
          expires = now + timeout;
          risk = (case n_riskLevel body of
                    Some r \<Rightarrow> r
                  | None \<Rightarrow> determineRiskLevel bodyTool (n_command body));
          proj = (if truthy (n_project body)
                  then (case n_project body of Some p \<Rightarrow> p | None \<Rightarrow> [])
                  else if lastSegment bodyDir \<noteq> [] then lastSegment bodyDir
                  else ''Unknown'')
      in \<lparr>requestId = uuid, tool = bodyTool, command = n_command body,
          description = None, args = n_args body, workingDirectory = bodyDir,
          project = proj, riskLevel = risk, timestamp = now, expiresAt = expires\<rparr>)"

definition notify_handler ::
  "string \<Rightarrow> string option \<Rightarrow> string option \<Rightarrow> int option \<Rightarrow> string \<Rightarrow> int \<Rightarrow> int
     \<Rightarrow> string + string \<Rightarrow> World \<Rightarrow> NotifyRequest
     \<Rightarrow> (nat \<times> NotifyResponse ApiResponse) \<times> World" where
  "notify_handler httpMethod apiKey authHeader larkTimeout uuid now tSet lark w body =
     (if httpMethod \<noteq> ''POST'' then ((405, ApiError ''Method not allowed''), w)
      else if \<not> verifyApiKey apiKey authHeader then ((401, ApiError ''Unauthorized''), w)
      else if \<not> truthy (n_tool body) \<or> \<not> truthy (n_workingDirectory body)
      then ((400, ApiError ''Missing required fields: tool, workingDirectory''), w)
      else
        case (n_tool body, n_workingDirectory body) of
          (Some bodyTool, Some bodyDir) \<Rightarrow>
            (let permissionRequest =
                   buildPermissionRequest larkTimeout uuid now bodyTool bodyDir body
             in case lark of
                  Inl err \<Rightarrow> ((500, ApiError err), w)
                | Inr messageId \<Rightarrow>
                    (let storedRequest =
                           \<lparr>request = permissionRequest, status = Pending, decision = None,
                            larkMessageId = Some messageId, createdAt = now\<rparr>
                     in ((200, ApiData \<lparr>r_requestId = uuid,
                                        r_expiresAt = expiresAt permissionRequest\<rparr>),
                         \<lparr>backend = store_set tSet (backend w) uuid storedRequest,
                          larkLog = larkLog w @ [SendPermissionRequest permissionRequest]\<rparr>)))
        | _ \<Rightarrow> ((400, ApiError ''Missing required fields: tool, workingDirectory''), w))"

section \<open>Sequences of store operations\<close>

text \<open>
  The status-changing operations of a store, each with the request it is called on and
  the instant of the call. The timer expiry exists in the volatile backend only. An
  operation answers a boolean or, for the timer and for \<open>get\<close>, none.
\<close>

datatype StoreOp =
    OpSetDecision string int Decision "string option" "string option"
  | OpSetExpired string int
  | OpTimerExpiry string
  | OpGet string int

fun apply_op :: "RequestStore \<Rightarrow> StoreOp \<Rightarrow> bool option \<times> RequestStore" where
  "apply_op st (OpSetDecision rid now dec by msg) =
     (case store_setDecision now st rid dec by msg of (b, st') \<Rightarrow> (Some b, st'))"
| "apply_op st (OpSetExpired rid now) =
     (case store_setExpired now st rid of (b, st') \<Rightarrow> (Some b, st'))"
| "apply_op (MemoryBackend s) (OpTimerExpiry rid) = (None, MemoryBackend (handleExpiration s rid))"
| "apply_op (KVBackend kv) (OpTimerExpiry rid) = (None, KVBackend kv)"
| "apply_op st (OpGet rid now) = (None, snd (store_get now st rid))"

fun run_ops :: "RequestStore \<Rightarrow> StoreOp list \<Rightarrow> RequestStore" where
  "run_ops st [] = st"
| "run_ops st (x # xs) = run_ops (snd (apply_op st x)) xs"

definition op_target :: "StoreOp \<Rightarrow> string" where
  "op_target x = (case x of OpSetDecision rid _ _ _ _ \<Rightarrow> rid | OpSetExpired rid _ \<Rightarrow> rid
                  | OpTimerExpiry rid \<Rightarrow> rid | OpGet rid _ \<Rightarrow> rid)"

text \<open>The record a backend holds for a request, whether or not its storage lifetime has
  lapsed.\<close>

fun raw_record :: "RequestStore \<Rightarrow> string \<Rightarrow> StoredRequest option" where
  "raw_record (MemoryBackend s) rid = store s rid"
| "raw_record (KVBackend kv) rid = map_option fst (kv (getKey rid))"

text \<open>Repeated \<open>setDecision\<close> calls on one request: the answers in order and the store
  after the last.\<close>

fun setDecisions ::
  "RequestStore \<Rightarrow> string \<Rightarrow> (int \<times> Decision \<times> string option \<times> string option) list
     \<Rightarrow> bool list \<times> RequestStore" where
  "setDecisions st rid [] = ([], st)"
| "setDecisions st rid ((now, dec, by, msg) # calls) =
     (case store_setDecision now st rid dec by msg of
        (b, st') \<Rightarrow> (case setDecisions st' rid calls of (bs, st'') \<Rightarrow> (b # bs, st'')))"

section \<open>Sample data\<close>

text \<open>A request created at instant 0 with a timeout of one second, and the same with the
  default timeout; the stores hold the first, written half a second after its creation,
  or the second, written at its creation.\<close>

definition sampleRequest :: "int \<Rightarrow> PermissionRequest" where
  "sampleRequest expires =
     \<lparr>requestId = ''r1'', tool = ''Bash'', command = Some ''ls -la'', description = None,
      args = None, workingDirectory = ''/home/u/app'', project = ''app'',
      riskLevel = Medium, timestamp = 0, expiresAt = expires\<rparr>"

definition samplePending :: "int \<Rightarrow> StoredRequest" where
  "samplePending expires =
     \<lparr>request = sampleRequest expires, status = Pending, decision = None,
      larkMessageId = Some ''om_1'', createdAt = 0\<rparr>"

definition sampleMemory :: MemoryStore where
  "sampleMemory = Memory_set 500 newMemoryStore ''r1'' (samplePending 1000)"

definition sampleKV :: VercelKV where
  "sampleKV = KV_set 500 Map.empty ''r1'' (samplePending 1000)"

definition sampleKVLong :: VercelKV where
  "sampleKVLong = KV_set 0 Map.empty ''r1'' (samplePending 300000)"

definition sampleDecided :: RequestStore where
  "sampleDecided =
     MemoryBackend (snd (Memory_setDecision 600 sampleMemory ''r1'' Approve (Some ''ou_1'') None))"

definition afterApprove :: RequestStore where
  "afterApprove =
     snd (store_setDecision 600 (KVBackend sampleKV) ''r1'' Approve (Some ''ou_1'') None)"

text \<open>A create request without a tool, and one with every field including a description.\<close>

definition sampleNoTool :: NotifyRequest where
  "sampleNoTool =
     \<lparr>n_tool = None, n_command = Some ''ls -la'', n_description = None, n_args = None,
      n_workingDirectory = Some ''/home/u/app'', n_project = None, n_riskLevel = None\<rparr>"

definition sampleCreate :: NotifyRequest where
  "sampleCreate =
     \<lparr>n_tool = Some ''Bash'', n_command = Some ''ls -la'',
      n_description = Some ''list the files'', n_args = None,
      n_workingDirectory = Some ''/home/u/app'', n_project = None, n_riskLevel = None\<rparr>"

definition emptyWorld :: World where
  "emptyWorld = \<lparr>backend = MemoryBackend newMemoryStore, larkLog = []\<rparr>"

text \<open>Action events on the sample request: a message of blanks only, a message with
  text, and an approval; and the two worlds that hold the sample request.\<close>

definition sampleBlankMessage :: LarkCardCallback where
  "sampleBlankMessage =
     \<lparr>header_token = ''tok'', operator_open_id = ''ou_1'', value_requestId = Some ''r1'',
      value_decision = Some ''message'', input_value = Some ''   '', form_value = None\<rparr>"

definition sampleMessage :: LarkCardCallback where
  "sampleMessage =
     \<lparr>header_token = ''tok'', operator_open_id = ''ou_1'', value_requestId = Some ''r1'',
      value_decision = Some ''message'', input_value = None,
      form_value = Some [''user_message'' \<mapsto> ''  retry with sudo  '']\<rparr>"

definition sampleApprove :: LarkCardCallback where
  "sampleApprove =
     \<lparr>header_token = ''tok'', operator_open_id = ''ou_1'', value_requestId = Some ''r1'',
      value_decision = Some ''approve'', input_value = None, form_value = None\<rparr>"

definition memoryWorld :: World where
  "memoryWorld = \<lparr>backend = MemoryBackend sampleMemory, larkLog = []\<rparr>"

definition kvWorld :: World where
  "kvWorld = \<lparr>backend = KVBackend sampleKV, larkLog = []\<rparr>"

text \<open>The message a stored record carries, if any.\<close>

definition storedMessage :: "StoredRequest \<Rightarrow> string option" where
  "storedMessage r = (case decision r of Some d \<Rightarrow> d_message d | None \<Rightarrow> None)"

lemmas sample_defs = sampleMemory_def sampleKV_def samplePending_def
  sampleRequest_def newMemoryStore_def Memory_set_def KV_set_def kv_set_def getKey_def
  KEY_PREFIX_def ceilSeconds_def KV_get_def kv_get_def

section \<open>The decision-applying operation\<close>

lemma getKey_inj: "(getKey a = getKey b) = (a = b)"
  by (simp add: getKey_def)

lemma Memory_setDecision_true:
  "fst (Memory_setDecision now s rid dec by msg) \<longleftrightarrow>
     (\<exists>r. store s rid = Some r \<and> status r = Pending \<and> now < expiresAt (request r))"
  by (auto simp: Memory_setDecision_def Let_def split: option.splits)

lemma Memory_setDecision_false:
  "\<not> fst (Memory_setDecision now s rid dec by msg) \<Longrightarrow>
     snd (Memory_setDecision now s rid dec by msg) =
       (case store s rid of
          None \<Rightarrow> s
        | Some r \<Rightarrow> if status r = Pending \<and> expiresAt (request r) \<le> now
                    then s\<lparr>store := (store s)(rid \<mapsto> r\<lparr>status := Expired\<rparr>)\<rparr>
                    else s)"
  by (auto simp: Memory_setDecision_def Let_def split: option.splits)

lemma Memory_setDecision_success:
  "store s rid = Some r \<Longrightarrow> fst (Memory_setDecision now s rid dec by msg) \<Longrightarrow>
     snd (Memory_setDecision now s rid dec by msg) =
       \<lparr>store = (store s)(rid \<mapsto>
            r\<lparr>status := (if dec = Approve then Approved
                          else if dec = Message then MessageStatus else Denied),
              decision := Some \<lparr>d_requestId = rid, d_decision = dec, d_message = msg,
                                respondedAt = now, respondedBy = by\<rparr>\<rparr>),
        timers = clearTimer (timers s) rid\<rparr>"
  by (auto simp: Memory_setDecision_def Let_def split: if_splits)

text \<open>
  C1 at a decision that arrives at the expiry instant. The sample record expires at
  instant 1000; written to the durable backend at 500, its storage lifetime is rounded
  up to one second, so at 1000 it is still readable and pending.
  \<open>KVStore.setDecision\<close> called at 1000 answers true and stores the approval: it reads
  no clock against \<open>expiresAt\<close>. \<open>MemoryStore.setDecision\<close>, on the same record at the
  same instant, answers false and flips the record to expired.
\<close>

theorem kv_setDecision_accepts_at_expiry:
  "KV_get 1000 sampleKV ''r1'' = Some (samplePending 1000) \<and>
   status (samplePending 1000) = Pending \<and>
   expiresAt (request (samplePending 1000)) \<le> 1000 \<and>
   fst (KV_setDecision 1000 sampleKV ''r1'' Approve None) \<and>
   map_option status
     (KV_get 1000 (snd (KV_setDecision 1000 sampleKV ''r1'' Approve None)) ''r1'')
     = Some Approved \<and>
   store sampleMemory ''r1'' = Some (samplePending 1000) \<and>
   \<not> fst (Memory_setDecision 1000 sampleMemory ''r1'' Approve None None) \<and>
   map_option status
     (store (snd (Memory_setDecision 1000 sampleMemory ''r1'' Approve None None)) ''r1'')
     = Some Expired"
  by (simp add: sample_defs KV_setDecision_def decisionTtlSeconds_def Memory_setDecision_def)


text \<open>The answers of the two backends at that instant, side by side.\<close>

theorem kv_setDecision_accepts_at_expiry_witness:
  "fst (KV_setDecision 1000 sampleKV ''r1'' Approve None) \<and>
   \<not> fst (Memory_setDecision 1000 sampleMemory ''r1'' Approve None None)"
  using kv_setDecision_accepts_at_expiry by simp


text \<open>
  In the volatile backend the property holds in general. \<open>MemoryStore.setDecision\<close>
  answers true exactly when the record exists, is pending and \<open>now < expiresAt\<close>. When
  it answers false the store is as before, except that a pending record at or past its
  expiry has its status flipped to expired (its decision stays as it was). When it
  answers true the record gets the status of the decision kind and the decision stamped
  with \<open>now\<close>, and the timer of the request is dropped.
\<close>

theorem memory_setDecision_outcome:
  "(fst (Memory_setDecision now s rid dec by msg) \<longleftrightarrow>
      (\<exists>r. store s rid = Some r \<and> status r = Pending \<and> now < expiresAt (request r))) \<and>
   (\<not> fst (Memory_setDecision now s rid dec by msg) \<longrightarrow>
      snd (Memory_setDecision now s rid dec by msg) =
        (case store s rid of
           None \<Rightarrow> s
         | Some r \<Rightarrow> if status r = Pending \<and> expiresAt (request r) \<le> now
                     then s\<lparr>store := (store s)(rid \<mapsto> r\<lparr>status := Expired\<rparr>)\<rparr>
                     else s)) \<and>
   (\<forall>r. store s rid = Some r \<and> fst (Memory_setDecision now s rid dec by msg) \<longrightarrow>
      snd (Memory_setDecision now s rid dec by msg) =
        \<lparr>store = (store s)(rid \<mapsto>
             r\<lparr>status := (if dec = Approve then Approved
                           else if dec = Message then MessageStatus else Denied),
               decision := Some \<lparr>d_requestId = rid, d_decision = dec, d_message = msg,
                                 respondedAt = now, respondedBy = by\<rparr>\<rparr>),
         timers = clearTimer (timers s) rid\<rparr>)"
  using Memory_setDecision_true [of now s rid dec "by" msg]
    Memory_setDecision_false [of now s rid dec "by" msg]
    Memory_setDecision_success [of s rid _ now dec "by" msg]
  by blast


text \<open>The theorem at the sample store: an approval at the expiry instant, and a denial
  one millisecond before it.\<close>

theorem memory_setDecision_outcome_witness:
  "\<not> fst (Memory_setDecision 1000 sampleMemory ''r1'' Approve None None) \<and>
   snd (Memory_setDecision 1000 sampleMemory ''r1'' Approve None None) =
     sampleMemory\<lparr>store :=
       (store sampleMemory)(''r1'' \<mapsto> (samplePending 1000)\<lparr>status := Expired\<rparr>)\<rparr> \<and>
   fst (Memory_setDecision 999 sampleMemory ''r1'' Deny (Some ''ou_1'') None) \<and>
   snd (Memory_setDecision 999 sampleMemory ''r1'' Deny (Some ''ou_1'') None) =
     \<lparr>store = (store sampleMemory)(''r1'' \<mapsto>
          (samplePending 1000)\<lparr>status := Denied,
             decision := Some \<lparr>d_requestId = ''r1'', d_decision = Deny, d_message = None,
                               respondedAt = 999, respondedBy = Some ''ou_1''\<rparr>\<rparr>),
      timers = clearTimer (timers sampleMemory) ''r1''\<rparr>"
proof -
  have m: "store sampleMemory ''r1'' = Some (samplePending 1000)"
    by (simp add: sample_defs)
  have e: "expiresAt (request (samplePending 1000)) = 1000"
    "status (samplePending 1000) = Pending"
    by (simp_all add: sample_defs)
  show ?thesis
    using memory_setDecision_outcome [of 1000 sampleMemory "''r1''" Approve None None]
      memory_setDecision_outcome [of 999 sampleMemory "''r1''" Deny "Some ''ou_1''" None]
    by (simp add: m e)
qed

section \<open>Terminal statuses\<close>

lemma setDecision_terminal:
  "raw_record st rid = Some r \<Longrightarrow> status r \<noteq> Pending \<Longrightarrow>
     store_setDecision now st rid dec by msg = (False, st)"
  by (cases st)
     (auto simp: Memory_setDecision_def KV_setDecision_def KV_get_def kv_get_def
           split: option.splits if_splits)

lemma setExpired_terminal:
  "raw_record st rid = Some r \<Longrightarrow> status r \<noteq> Pending \<Longrightarrow>
     store_setExpired now st rid = (False, st)"
  by (cases st)
     (auto simp: Memory_setExpired_def KV_setExpired_def KV_get_def kv_get_def
           split: option.splits if_splits)

lemma apply_op_terminal:
  "raw_record st rid = Some r \<Longrightarrow> status r \<noteq> Pending \<Longrightarrow>
     raw_record (snd (apply_op st x)) rid = Some r"
proof (cases st)
  case (MemoryBackend s)
  assume "raw_record st rid = Some r" "status r \<noteq> Pending"
  then show ?thesis using MemoryBackend
    by (cases x)
       (auto simp: Memory_setDecision_def Memory_setExpired_def Memory_get_def
          handleExpiration_def Let_def split: option.splits if_splits)
next
  case (KVBackend kv)
  assume "raw_record st rid = Some r" "status r \<noteq> Pending"
  then show ?thesis using KVBackend
    by (cases x)
       (auto simp: KV_setDecision_def KV_setExpired_def KV_get_def kv_get_def kv_set_def
          getKey_inj Let_def split: option.splits if_splits)
qed

lemma run_ops_terminal:
  "raw_record st rid = Some r \<Longrightarrow> status r \<noteq> Pending \<Longrightarrow>
     raw_record (run_ops st xs) rid = Some r"
  by (induction xs arbitrary: st) (auto simp: apply_op_terminal)

text \<open>
  C3. In either backend, on a record whose status is not pending, \<open>setDecision\<close> and
  \<open>setExpired\<close> answer false and leave the whole store as it was; no single operation
  (these two, the timer expiry, a \<open>get\<close>), on this or any other request, changes the
  record; and so no sequence of them does: approved, denied, expired and message are
  terminal.
\<close>

theorem status_transitions_monotonic:
  "raw_record st rid = Some r \<and> status r \<noteq> Pending \<longrightarrow>
     store_setDecision now st rid dec by msg = (False, st) \<and>
     store_setExpired now' st rid = (False, st) \<and>
     (\<forall>x. raw_record (snd (apply_op st x)) rid = Some r) \<and>
     (\<forall>xs. raw_record (run_ops st xs) rid = Some r)"
  by (simp add: setDecision_terminal setExpired_terminal apply_op_terminal run_ops_terminal)

text \<open>The theorem at an approved record of the volatile backend: a later denial, an
  expiry, the timer, a read and a message all leave it approved.\<close>

theorem status_transitions_monotonic_witness:
  "map_option status (raw_record sampleDecided ''r1'') = Some Approved \<and>
   store_setDecision 700 sampleDecided ''r1'' Deny None None = (False, sampleDecided) \<and>
   store_setExpired 2000 sampleDecided ''r1'' = (False, sampleDecided) \<and>
   map_option status
     (raw_record
        (run_ops sampleDecided
           [OpSetExpired ''r1'' 2000, OpTimerExpiry ''r1'', OpGet ''r1'' 3000,
            OpSetDecision ''r1'' 3500 Message None (Some ''go on'')]) ''r1'') = Some Approved"
proof -
  obtain r where r: "raw_record sampleDecided ''r1'' = Some r" "status r = Approved"
    by (simp add: sampleDecided_def sample_defs Memory_setDecision_def clearTimer_def)
  then have "raw_record sampleDecided ''r1'' = Some r \<and> status r \<noteq> Pending"
    by simp
  with status_transitions_monotonic [of sampleDecided "''r1''" r 700 Deny None None 2000]
  show ?thesis
    using r by (simp del: run_ops.simps apply_op.simps store_setDecision.simps
                  store_setExpired.simps)
qed

section \<open>Repeated decisions\<close>

lemma setDecision_first:
  "stored_at now st rid = Some r \<Longrightarrow> status r = Pending \<Longrightarrow> now < expiresAt (request r) \<Longrightarrow>
     fst (store_setDecision now st rid dec by msg) \<and>
     (\<exists>r'. raw_record (snd (store_setDecision now st rid dec by msg)) rid = Some r' \<and>
           status r' \<noteq> Pending \<and>
           decision r' =
             Some \<lparr>d_requestId = rid, d_decision = dec,
                   d_message = (case st of MemoryBackend _ \<Rightarrow> msg | KVBackend _ \<Rightarrow> None),
                   respondedAt = now, respondedBy = by\<rparr>)"
  by (cases st)
     (auto simp: Memory_setDecision_def KV_setDecision_def kv_set_def Let_def
           split: option.splits if_splits)

lemma setDecisions_terminal:
  "raw_record st rid = Some r \<Longrightarrow> status r \<noteq> Pending \<Longrightarrow>
     setDecisions st rid calls = (replicate (length calls) False, st)"
  by (induction calls) (auto simp: setDecision_terminal)

text \<open>
  C4. In either backend, \<open>setDecision\<close> on a record that is pending and unexpired (and,
  in the durable backend, readable) answers true and leaves a record that is no longer
  pending and carries a decision; every later \<open>setDecision\<close> on the same request, at any
  instant and with any decision, responder and message, answers false and leaves the
  store exactly as the first call left it, and so does any sequence of such calls.
\<close>

theorem setDecision_idempotent:
  "stored_at now st rid = Some r \<and> status r = Pending \<and> now < expiresAt (request r) \<longrightarrow>
     fst (store_setDecision now st rid dec by msg) \<and>
     (\<exists>r'. raw_record (snd (store_setDecision now st rid dec by msg)) rid = Some r' \<and>
           status r' \<noteq> Pending \<and> decision r' \<noteq> None) \<and>
     (\<forall>now' dec' by' msg'.
        store_setDecision now' (snd (store_setDecision now st rid dec by msg)) rid dec' by' msg'
          = (False, snd (store_setDecision now st rid dec by msg))) \<and>
     (\<forall>calls.
        setDecisions (snd (store_setDecision now st rid dec by msg)) rid calls
          = (replicate (length calls) False, snd (store_setDecision now st rid dec by msg)))"
proof (intro impI, elim conjE)
  assume a: "stored_at now st rid = Some r" "status r = Pending" "now < expiresAt (request r)"
  let ?st' = "snd (store_setDecision now st rid dec by msg)"
  from setDecision_first [OF a, of dec "by" msg]
  obtain r' where f: "fst (store_setDecision now st rid dec by msg)"
    and r': "raw_record ?st' rid = Some r'" "status r' \<noteq> Pending" "decision r' \<noteq> None"
    by auto
  show "fst (store_setDecision now st rid dec by msg) \<and>
     (\<exists>r'. raw_record ?st' rid = Some r' \<and> status r' \<noteq> Pending \<and> decision r' \<noteq> None) \<and>
     (\<forall>now' dec' by' msg'. store_setDecision now' ?st' rid dec' by' msg' = (False, ?st')) \<and>
     (\<forall>calls. setDecisions ?st' rid calls = (replicate (length calls) False, ?st'))"
    using f r' setDecision_terminal [OF r'(1,2)] setDecisions_terminal [OF r'(1,2)]
    by blast
qed

text \<open>The theorem at the durable sample store: an approval at 600, then a denial, a
  message and a second approval, all refused.\<close>

theorem setDecision_idempotent_witness:
  "stored_at 600 (KVBackend sampleKV) ''r1'' = Some (samplePending 1000) \<and>
   fst (store_setDecision 600 (KVBackend sampleKV) ''r1'' Approve (Some ''ou_1'') None) \<and>
   store_setDecision 700 afterApprove ''r1'' Deny (Some ''ou_2'') None = (False, afterApprove) \<and>
   setDecisions afterApprove ''r1''
     [(700, Deny, Some ''ou_2'', None), (800, Message, None, Some ''wait''),
      (900, Approve, None, None)]
     = ([False, False, False], afterApprove)"
proof -
  have a: "stored_at 600 (KVBackend sampleKV) ''r1'' = Some (samplePending 1000)"
    by (simp add: sample_defs)
  have b: "status (samplePending 1000) = Pending"
    "600 < expiresAt (request (samplePending 1000))"
    by (simp_all add: sample_defs)
  from a b setDecision_idempotent [of 600 "KVBackend sampleKV" "''r1''" "samplePending 1000"
      Approve "Some ''ou_1''" None]
  have T: "fst (store_setDecision 600 (KVBackend sampleKV) ''r1'' Approve (Some ''ou_1'') None)"
    "\<forall>now' dec' by' msg'.
       store_setDecision now' afterApprove ''r1'' dec' by' msg' = (False, afterApprove)"
    "\<forall>calls. setDecisions afterApprove ''r1'' calls
       = (replicate (length calls) False, afterApprove)"
    unfolding afterApprove_def by blast+
  show ?thesis
    using a T(1) T(2) [rule_format, of 700 Deny "Some ''ou_2''" None]
      T(3) [rule_format, of "[(700, Deny, Some ''ou_2'', None),
        (800, Message, None, Some ''wait''), (900, Approve, None, None)]"]
    by (simp del: setDecisions.simps store_setDecision.simps stored_at.simps)
qed

section \<open>Retention of a decided record in the durable backend\<close>

lemma ceilSeconds_ge: "x \<le> 1000 * ceilSeconds x"
  unfolding ceilSeconds_def by linarith

text \<open>
  C6, as the code has it. A successful \<open>KVStore.setDecision\<close> writes the record with a
  storage lifetime of \<open>max(60, ceil((expiresAt - now) / 1000))\<close> seconds: the entry
  lapses at \<open>now\<close> plus that many seconds, so the decided record is readable at every
  instant before \<open>now + 60 s\<close> and at every instant before \<open>expiresAt\<close>. (The 60 seconds
  are a floor counted from the decision, not an addition to the original expiry.)
\<close>

theorem kv_decision_retention:
  "KV_get now kv rid = Some r \<and> status r = Pending \<longrightarrow>
     fst (KV_setDecision now kv rid dec by) \<and>
     map_option snd (snd (KV_setDecision now kv rid dec by) (getKey rid))
       = Some (now + 1000 * max 60 (ceilSeconds (expiresAt (request r) - now))) \<and>
     (\<forall>t. t < now + 60000 \<or> t < expiresAt (request r) \<longrightarrow>
        (\<exists>r'. KV_get t (snd (KV_setDecision now kv rid dec by)) rid = Some r' \<and>
              status r' \<noteq> Pending \<and> request r' = request r))"
proof (intro impI, elim conjE)
  assume a: "KV_get now kv rid = Some r" "status r = Pending"
  have c: "expiresAt (request r) - now \<le> 1000 * ceilSeconds (expiresAt (request r) - now)"
    by (rule ceilSeconds_ge)
  show "fst (KV_setDecision now kv rid dec by) \<and>
     map_option snd (snd (KV_setDecision now kv rid dec by) (getKey rid))
       = Some (now + 1000 * max 60 (ceilSeconds (expiresAt (request r) - now))) \<and>
     (\<forall>t. t < now + 60000 \<or> t < expiresAt (request r) \<longrightarrow>
        (\<exists>r'. KV_get t (snd (KV_setDecision now kv rid dec by)) rid = Some r' \<and>
              status r' \<noteq> Pending \<and> request r' = request r))"
    using a c
    by (auto simp: KV_setDecision_def decisionTtlSeconds_def kv_set_def KV_get_def kv_get_def
          Let_def max_def)
qed

text \<open>The theorem at a request with the default timeout, approved at its creation: the
  entry lapses at instant 300000 and is readable just before.\<close>

theorem kv_decision_retention_witness:
  "KV_get 0 sampleKVLong ''r1'' = Some (samplePending 300000) \<and>
   fst (KV_setDecision 0 sampleKVLong ''r1'' Approve None) \<and>
   map_option snd (snd (KV_setDecision 0 sampleKVLong ''r1'' Approve None) (getKey ''r1''))
     = Some 300000 \<and>
   map_option status
     (KV_get 299999 (snd (KV_setDecision 0 sampleKVLong ''r1'' Approve None)) ''r1'')
     = Some Approved"
proof -
  have a: "KV_get 0 sampleKVLong ''r1'' = Some (samplePending 300000)"
    "status (samplePending 300000) = Pending"
    "expiresAt (request (samplePending 300000)) = 300000"
    by (simp_all add: sampleKVLong_def sample_defs)
  have s: "map_option status
      (KV_get 299999 (snd (KV_setDecision 0 sampleKVLong ''r1'' Approve None)) ''r1'')
     = Some Approved"
    by (simp add: sampleKVLong_def sample_defs KV_setDecision_def decisionTtlSeconds_def)
  show ?thesis
    using kv_decision_retention [of 0 sampleKVLong "''r1''" "samplePending 300000" Approve None]
      a s
    by (simp add: ceilSeconds_def)
qed

text \<open>
  C6 as stated fails: for that request the lifetime passed to the write is 300 seconds,
  not the 360 the claim asks for, and at \<open>expiresAt\<close> itself the decided record is
  already unreadable.
\<close>

theorem kv_decision_retention_counterexample:
  "KV_get 0 sampleKVLong ''r1'' = Some (samplePending 300000) \<and>
   status (samplePending 300000) = Pending \<and>
   fst (KV_setDecision 0 sampleKVLong ''r1'' Approve None) \<and>
   decisionTtlSeconds 0 (samplePending 300000) = 300 \<and>
   ceilSeconds (expiresAt (request (samplePending 300000)) - 0) + 60 = 360 \<and>
   KV_get (expiresAt (request (samplePending 300000)))
     (snd (KV_setDecision 0 sampleKVLong ''r1'' Approve None)) ''r1'' = None"
  by (simp add: sampleKVLong_def sample_defs KV_setDecision_def decisionTtlSeconds_def)

section \<open>Risk classification\<close>

lemma anyPatternMatches_find:
  "anyPatternMatches ps c = (find (\<lambda>p. regex_test p c) ps \<noteq> None)"
  by (induction ps) auto

lemma find_tier:
  "find (\<lambda>(p, tier). regex_test p c) (map (\<lambda>p. (p, T)) ps @ rest) =
     (case find (\<lambda>p. regex_test p c) ps of
        Some p \<Rightarrow> Some (p, T)
      | None \<Rightarrow> find (\<lambda>(p, tier). regex_test p c) rest)"
  by (induction ps) auto

lemma determineRiskLevel_classify: "determineRiskLevel toolName cmd = classify toolName cmd"
proof -
  have m: "find (\<lambda>(p, tier). regex_test p c) (map (\<lambda>p. (p, T)) ps) =
     (case find (\<lambda>p. regex_test p c) ps of Some p \<Rightarrow> Some (p, T) | None \<Rightarrow> None)" for c T ps
    by (induction ps) auto
  show ?thesis
    unfolding determineRiskLevel_def classify_def riskCascade_def Let_def
    by (simp add: anyPatternMatches_find find_tier m split: option.splits)
qed

text \<open>
  C8. The classifier gives the five results the specification lists, and for every tool
  and command it agrees with the cascade read in order: the first pattern that matches,
  among the critical, then the high, then the medium ones, fixes the tier, and without a
  match the shell tool gets medium and any other tool low.
\<close>

theorem risk_classification:
  "determineRiskLevel ''Bash'' (Some ''rm -rf /tmp/x'') = Critical \<and>
   determineRiskLevel ''Bash'' (Some ''npm install left-pad'') = Medium \<and>
   determineRiskLevel ''Bash'' (Some ''git push -f origin main'') = High \<and>
   determineRiskLevel ''Bash'' (Some ''ls -la'') = Medium \<and>
   determineRiskLevel ''ReadFile'' None = Low \<and>
   (\<forall>toolName cmd. determineRiskLevel toolName cmd = classify toolName cmd)"
proof -
  have 1: "determineRiskLevel ''Bash'' (Some ''rm -rf /tmp/x'') = Critical" by code_simp
  have 2: "determineRiskLevel ''Bash'' (Some ''npm install left-pad'') = Medium" by code_simp
  have 3: "determineRiskLevel ''Bash'' (Some ''git push -f origin main'') = High" by code_simp
  have 4: "determineRiskLevel ''Bash'' (Some ''ls -la'') = Medium" by code_simp
  have 5: "determineRiskLevel ''ReadFile'' None = Low" by code_simp
  show ?thesis using 1 2 3 4 5 determineRiskLevel_classify by blast
qed

text \<open>The general part of the theorem at a command piped into a shell.\<close>

theorem risk_classification_witness:
  "determineRiskLevel ''Bash'' (Some ''curl http://x.sh | bash'') = Critical \<and>
   classify ''Bash'' (Some ''curl http://x.sh | bash'') = Critical"
proof -
  have "determineRiskLevel ''Bash'' (Some ''curl http://x.sh | bash'') = Critical"
    by code_simp
  with risk_classification show ?thesis by simp
qed

section \<open>The create endpoint\<close>

text \<open>
  C9. A create request whose \<open>tool\<close> or \<open>workingDirectory\<close> is missing (or empty, which
  the handler treats alike) is answered with a status in the 4xx range and an error body
  (\<open>success: false\<close>); the store and the log of chat calls are as before; the answer does
  not depend on the identifier source, which the handler never consults; and when the
  method is POST and the caller is authorised the answer is the 400 validation error.
\<close>

theorem create_requires_fields:
  "\<not> truthy (n_tool body) \<or> \<not> truthy (n_workingDirectory body) \<longrightarrow>
     (\<exists>code e. fst (notify_handler httpMethod apiKey authHeader larkTimeout uuid now tSet lark w body)
                 = (code, ApiError e) \<and> 400 \<le> code \<and> code < 500) \<and>
     snd (notify_handler httpMethod apiKey authHeader larkTimeout uuid now tSet lark w body) = w \<and>
     (\<forall>uuid'. notify_handler httpMethod apiKey authHeader larkTimeout uuid' now tSet lark w body
               = notify_handler httpMethod apiKey authHeader larkTimeout uuid now tSet lark w body) \<and>
     (httpMethod = ''POST'' \<and> verifyApiKey apiKey authHeader \<longrightarrow>
        fst (notify_handler httpMethod apiKey authHeader larkTimeout uuid now tSet lark w body)
          = (400, ApiError ''Missing required fields: tool, workingDirectory''))"
  by (auto simp: notify_handler_def)


text \<open>The theorem at a request without a tool.\<close>

theorem create_requires_fields_witness:
  "n_tool sampleNoTool = None \<and>
   notify_handler ''POST'' None None None ''id-1'' 0 5 (Inr ''om_1'') emptyWorld sampleNoTool
     = ((400, ApiError ''Missing required fields: tool, workingDirectory''), emptyWorld)"
proof -
  have a: "n_tool sampleNoTool = None" "\<not> truthy (n_tool sampleNoTool)"
    by (simp_all add: sampleNoTool_def truthy_def)
  have v: "verifyApiKey None None" by (simp add: verifyApiKey_def truthy_def)
  show ?thesis
    using create_requires_fields [of sampleNoTool "''POST''" None None None "''id-1''" 0 5
        "Inr ''om_1''" emptyWorld] a v
    by (metis prod.collapse)
qed


lemma apply_op_request:
  "raw_record st rid = Some r \<Longrightarrow>
     \<exists>r'. raw_record (snd (apply_op st x)) rid = Some r' \<and> request r' = request r"
proof (cases st)
  case (MemoryBackend s)
  assume "raw_record st rid = Some r"
  then show ?thesis using MemoryBackend
    by (cases x)
       (auto simp: Memory_setDecision_def Memory_setExpired_def Memory_get_def
          handleExpiration_def Let_def split: option.splits if_splits)
next
  case (KVBackend kv)
  assume "raw_record st rid = Some r"
  then show ?thesis using KVBackend
    by (cases x)
       (auto simp: KV_setDecision_def KV_setExpired_def KV_get_def kv_get_def kv_set_def
          getKey_inj Let_def split: option.splits if_splits)
qed

lemma run_ops_request:
  "raw_record st rid = Some r \<Longrightarrow>
     \<exists>r'. raw_record (run_ops st xs) rid = Some r' \<and> request r' = request r"
proof (induction xs arbitrary: st r)
  case Nil
  then show ?case by simp
next
  case (Cons x xs)
  from apply_op_request [OF Cons.prems, of x]
  obtain r1 where r1: "raw_record (snd (apply_op st x)) rid = Some r1" "request r1 = request r"
    by blast
  from Cons.IH [OF r1(1)] r1(2) show ?case by simp
qed

lemma store_get_request:
  "fst (store_get t st rid) = Some r' \<Longrightarrow>
     \<exists>r. raw_record st rid = Some r \<and> request r' = request r"
  by (cases st)
     (auto simp: Memory_get_def KV_get_def kv_get_def Let_def split: option.splits if_splits)

lemma store_set_raw: "raw_record (store_set t st rid data) rid = Some data"
  by (cases st) (auto simp: Memory_set_def KV_set_def kv_set_def Let_def)

lemma description_built:
  "description (buildPermissionRequest larkTimeout uuid now bodyTool bodyDir body) = None"
  by (simp add: buildPermissionRequest_def Let_def)

lemma built_ignores_description:
  "buildPermissionRequest larkTimeout uuid now bodyTool bodyDir (body\<lparr>n_description := d\<rparr>)
     = buildPermissionRequest larkTimeout uuid now bodyTool bodyDir body"
  by (simp add: buildPermissionRequest_def split: option.splits)

lemma notify_handler_created:
  "n_tool body = Some bodyTool \<Longrightarrow> n_workingDirectory body = Some bodyDir \<Longrightarrow>
   httpMethod = ''POST'' \<Longrightarrow> verifyApiKey apiKey authHeader \<Longrightarrow> bodyTool \<noteq> [] \<Longrightarrow> bodyDir \<noteq> [] \<Longrightarrow>
     notify_handler httpMethod apiKey authHeader larkTimeout uuid now tSet (Inr mid) w body =
       ((200, ApiData \<lparr>r_requestId = uuid,
                      r_expiresAt = expiresAt (buildPermissionRequest larkTimeout uuid now bodyTool bodyDir body)\<rparr>),
        \<lparr>backend = store_set tSet (backend w) uuid
            \<lparr>request = buildPermissionRequest larkTimeout uuid now bodyTool bodyDir body,
             status = Pending, decision = None, larkMessageId = Some mid, createdAt = now\<rparr>,
         larkLog = larkLog w @
           [SendPermissionRequest (buildPermissionRequest larkTimeout uuid now bodyTool bodyDir body)]\<rparr>)"
  by (simp add: notify_handler_def truthy_def Let_def)

lemma notify_handler_not_created:
  "httpMethod \<noteq> ''POST'' \<or> \<not> verifyApiKey apiKey authHeader \<or> \<not> truthy (n_tool body) \<or>
   \<not> truthy (n_workingDirectory body) \<or> lark = Inl err \<Longrightarrow>
     snd (notify_handler httpMethod apiKey authHeader larkTimeout uuid now tSet lark w body) = w \<and>
     fst (fst (notify_handler httpMethod apiKey authHeader larkTimeout uuid now tSet lark w body)) \<noteq> 200"
  by (cases "n_tool body"; cases "n_workingDirectory body")
     (auto simp: notify_handler_def Let_def truthy_def)

lemma notify_created:
  assumes "fst (fst (notify_handler httpMethod apiKey authHeader larkTimeout uuid now tSet lark w body)) = 200"
  shows "\<exists>pr mid. 
        snd (notify_handler httpMethod apiKey authHeader larkTimeout uuid now tSet lark w body)
          = \<lparr>backend = store_set tSet (backend w) uuid
                 \<lparr>request = pr, status = Pending, decision = None,
                  larkMessageId = Some mid, createdAt = now\<rparr>,
             larkLog = larkLog w @ [SendPermissionRequest pr]\<rparr> \<and>
        description pr = None"
proof -
  from assms notify_handler_not_created [of httpMethod apiKey authHeader body lark _ larkTimeout uuid now tSet w]
  have g: "httpMethod = ''POST''" "verifyApiKey apiKey authHeader" "truthy (n_tool body)"
    "truthy (n_workingDirectory body)" and l: "\<forall>err. lark \<noteq> Inl err"
    by blast+
  from g(3,4) obtain bodyTool bodyDir where
    b: "n_tool body = Some bodyTool" "bodyTool \<noteq> []"
       "n_workingDirectory body = Some bodyDir" "bodyDir \<noteq> []"
    by (auto simp: truthy_def split: option.splits)
  from l obtain mid where m: "lark = Inr mid" by (cases lark) auto
  show ?thesis
    apply (rule exI [of _ "buildPermissionRequest larkTimeout uuid now bodyTool bodyDir body"])
    apply (rule exI [of _ mid])
    using notify_handler_created [OF b(1) b(3) g(1) g(2) b(2) b(4), of larkTimeout uuid now tSet mid w]
    by (simp add: m description_built)
qed

lemma notify_failed:
  "fst (fst (notify_handler httpMethod apiKey authHeader larkTimeout uuid now tSet lark w body)) \<noteq> 200 \<Longrightarrow>
     snd (notify_handler httpMethod apiKey authHeader larkTimeout uuid now tSet lark w body) = w"
  by (cases "n_tool body"; cases "n_workingDirectory body"; cases lark)
     (auto simp: notify_handler_def Let_def truthy_def)

lemma notify_ignores_description:
  "notify_handler httpMethod apiKey authHeader larkTimeout uuid now tSet lark w
       (body\<lparr>n_description := d\<rparr>)
     = notify_handler httpMethod apiKey authHeader larkTimeout uuid now tSet lark w body"
  by (cases "n_tool body"; cases "n_workingDirectory body")
     (simp_all add: notify_handler_def built_ignores_description)

text \<open>
  C10. The handler's result does not depend on the \<open>description\<close> of the request body.
  When it answers anything but 200 nothing is written; when it answers 200, the request
  passed to the chat client and the request of the stored record are one and the same
  and have no description, and every later read of that record, after any sequence of
  store operations, returns a request without description.
\<close>

theorem created_request_has_no_description:
  "(\<forall>d. notify_handler httpMethod apiKey authHeader larkTimeout uuid now tSet lark w
            (body\<lparr>n_description := d\<rparr>)
          = notify_handler httpMethod apiKey authHeader larkTimeout uuid now tSet lark w body) \<and>
   (fst (fst (notify_handler httpMethod apiKey authHeader larkTimeout uuid now tSet lark w body)) \<noteq> 200
      \<longrightarrow> snd (notify_handler httpMethod apiKey authHeader larkTimeout uuid now tSet lark w body) = w) \<and>
   (fst (fst (notify_handler httpMethod apiKey authHeader larkTimeout uuid now tSet lark w body)) = 200
      \<longrightarrow>
      (\<exists>pr r.
         larkLog (snd (notify_handler httpMethod apiKey authHeader larkTimeout uuid now tSet lark w body))
           = larkLog w @ [SendPermissionRequest pr] \<and>
         raw_record
           (backend (snd (notify_handler httpMethod apiKey authHeader larkTimeout uuid now tSet lark w body)))
           uuid = Some r \<and>
         request r = pr \<and> description pr = None) \<and>
      (\<forall>xs t r'.
         fst (store_get t
               (run_ops
                 (backend (snd (notify_handler httpMethod apiKey authHeader larkTimeout uuid now tSet lark w body)))
                 xs) uuid) = Some r'
         \<longrightarrow> description (request r') = None))"
proof (intro conjI allI impI)
  fix d
  show "notify_handler httpMethod apiKey authHeader larkTimeout uuid now tSet lark w
            (body\<lparr>n_description := d\<rparr>)
          = notify_handler httpMethod apiKey authHeader larkTimeout uuid now tSet lark w body"
    by (rule notify_ignores_description)
next
  assume "fst (fst (notify_handler httpMethod apiKey authHeader larkTimeout uuid now tSet lark w body)) \<noteq> 200"
  then show "snd (notify_handler httpMethod apiKey authHeader larkTimeout uuid now tSet lark w body) = w"
    by (rule notify_failed)
next
  let ?w' = "snd (notify_handler httpMethod apiKey authHeader larkTimeout uuid now tSet lark w body)"
  assume ok: "fst (fst (notify_handler httpMethod apiKey authHeader larkTimeout uuid now tSet lark w body)) = 200"
  from notify_created [OF ok] obtain pr mid where
    w': "?w' = \<lparr>backend = store_set tSet (backend w) uuid
                 \<lparr>request = pr, status = Pending, decision = None,
                  larkMessageId = Some mid, createdAt = now\<rparr>,
             larkLog = larkLog w @ [SendPermissionRequest pr]\<rparr>"
    and pr: "description pr = None"
    by blast
  have raw: "raw_record (backend ?w') uuid =
      Some \<lparr>request = pr, status = Pending, decision = None,
            larkMessageId = Some mid, createdAt = now\<rparr>"
    by (simp add: w' store_set_raw)
  show "\<exists>pr r. larkLog ?w' = larkLog w @ [SendPermissionRequest pr] \<and>
         raw_record (backend ?w') uuid = Some r \<and> request r = pr \<and> description pr = None"
    using raw pr w' by simp
  fix xs t r'
  assume g: "fst (store_get t (run_ops (backend ?w') xs) uuid) = Some r'"
  from run_ops_request [OF raw, of xs] obtain r1 where
    r1: "raw_record (run_ops (backend ?w') xs) uuid = Some r1" "request r1 = pr"
    by auto
  from store_get_request [OF g] r1 have "request r' = pr" by auto
  then show "description (request r') = None" using pr by simp
qed

text \<open>The theorem at a create request carrying a description: the record read back after
  an approval has none.\<close>

theorem created_request_has_no_description_witness:
  "n_description sampleCreate = Some ''list the files'' \<and>
   fst (notify_handler ''POST'' None None None ''id-1'' 0 5 (Inr ''om_1'') emptyWorld sampleCreate)
     = (200, ApiData \<lparr>r_requestId = ''id-1'', r_expiresAt = 300000\<rparr>) \<and>
   map_option (\<lambda>r. description (request r))
     (fst (store_get 100
        (run_ops (backend (snd (notify_handler ''POST'' None None None ''id-1'' 0 5 (Inr ''om_1'')
                    emptyWorld sampleCreate)))
           [OpSetDecision ''id-1'' 50 Approve None None]) ''id-1'')) = Some None"
proof -
  let ?h = "notify_handler ''POST'' None None None ''id-1'' 0 5 (Inr ''om_1'') emptyWorld sampleCreate"
  have a: "n_description sampleCreate = Some ''list the files''"
    by (simp add: sampleCreate_def)
  have f: "fst ?h = (200, ApiData \<lparr>r_requestId = ''id-1'', r_expiresAt = 300000\<rparr>)"
    by (simp add: notify_handler_def buildPermissionRequest_def sampleCreate_def truthy_def
          verifyApiKey_def DEFAULT_TIMEOUT_def Let_def)
  have g: "\<exists>r'. fst (store_get 100 (run_ops (backend (snd ?h))
           [OpSetDecision ''id-1'' 50 Approve None None]) ''id-1'') = Some r'"
    by (simp add: notify_handler_def buildPermissionRequest_def sampleCreate_def truthy_def
          verifyApiKey_def DEFAULT_TIMEOUT_def Let_def emptyWorld_def newMemoryStore_def Memory_set_def
          Memory_setDecision_def Memory_get_def clearTimer_def)
  show ?thesis
    using created_request_has_no_description [of "''POST''" None None None "''id-1''" 0 5
        "Inr ''om_1''" emptyWorld sampleCreate] a f g
    by (auto simp del: run_ops.simps)
qed


section \<open>The callback endpoint\<close>

lemma trim_Nil: "trim [] = []"
  by (simp add: trim_def)

lemma handleCardAction_touches:
  assumes t: "touchesStore vt body rid"
  shows "\<exists>dec um. handleCardAction vt tGet tNow tOp larkOk w body
                = processCardAction tGet tNow tOp larkOk w rid dec (operator_open_id body) um"
proof -
  have tok: "(truthy vt \<and>
      \<not> (case vt of Some v \<Rightarrow> verifyEventToken (header_token body) v | None \<Rightarrow> False))
      = False"
    using t by (auto simp: touchesStore_def truthy_def verifyEventToken_def split: option.splits)
  have rid: "value_requestId body = Some rid" "truthy (value_requestId body)"
    "truthy (value_decision body)"
    using t by (auto simp: touchesStore_def truthy_def)
  consider (approve) "value_decision body = Some ''approve''"
    | (deny) "value_decision body = Some ''deny''"
    | (message) m where "value_decision body = Some ''message''"
        "rawUserMessage body = Some m" "trim m \<noteq> []"
    using t by (auto simp: touchesStore_def split: option.splits)
  then show ?thesis
  proof cases
    case approve
    have "handleCardAction vt tGet tNow tOp larkOk w body
        = processCardAction tGet tNow tOp larkOk w rid Approve (operator_open_id body) None"
      using rid by (simp add: handleCardAction_def tok approve parseDecision_def)
    then show ?thesis by blast
  next
    case deny
    have "handleCardAction vt tGet tNow tOp larkOk w body
        = processCardAction tGet tNow tOp larkOk w rid Deny (operator_open_id body) None"
      using rid by (simp add: handleCardAction_def tok deny parseDecision_def)
    then show ?thesis by blast
  next
    case message
    from message(3) have "m \<noteq> []" using trim_Nil by auto
    then have "handleCardAction vt tGet tNow tOp larkOk w body
        = processCardAction tGet tNow tOp larkOk w rid Message (operator_open_id body)
            (Some (trim m))"
      using rid message
      by (simp add: handleCardAction_def tok parseDecision_def)
    then show ?thesis by blast
  qed
qed

text \<open>
  C7. An action event that the handler accepts (its token is the configured one, or none
  is configured, and it names a request) and that carries a message-kind decision whose
  text is absent, empty or blank is answered with the warning toast over HTTP 200. No
  such event reaches the store, whatever its token and request id: the world after the
  call, store and chat log, is the world before it.
\<close>

theorem blank_message_rejected:
  "value_decision body = Some ''message'' \<and>
   (rawUserMessage body = None \<or> (\<exists>m. rawUserMessage body = Some m \<and> trim m = [])) \<longrightarrow>
     snd (handleCardAction vt tGet tNow tOp larkOk w body) = w \<and>
     ((\<not> truthy vt \<or> vt = Some (header_token body)) \<and> truthy (value_requestId body) \<longrightarrow>
        fst (handleCardAction vt tGet tNow tOp larkOk w body)
          = (200, Toast Warning ''Please enter a message''))"
  by (cases "value_requestId body")
     (auto simp: handleCardAction_def parseDecision_def truthy_def verifyEventToken_def)


text \<open>The theorem at a message of three blanks with the right token.\<close>

theorem blank_message_rejected_witness:
  "rawUserMessage sampleBlankMessage = Some ''   '' \<and> trim ''   '' = [] \<and>
   handleCardAction (Some ''tok'') 600 600 600 True memoryWorld sampleBlankMessage
     = ((200, Toast Warning ''Please enter a message''), memoryWorld)"
proof -
  have a: "value_decision sampleBlankMessage = Some ''message''"
    "rawUserMessage sampleBlankMessage = Some ''   ''"
    "header_token sampleBlankMessage = ''tok''"
    "truthy (value_requestId sampleBlankMessage)"
    by (simp_all add: sampleBlankMessage_def rawUserMessage_def truthy_def)
  have t: "trim ''   '' = []" by code_simp
  show ?thesis
    using blank_message_rejected [of sampleBlankMessage "Some ''tok''" 600 600 600 True memoryWorld]
      a t
    by (metis prod.collapse)
qed

text \<open>
  C5 at the specification's example. A message-kind action with the text
  \<open>"  retry with sudo  "\<close> on the pending, unexpired sample request: the handler trims the
  text and answers that the message was sent. The volatile backend then holds status
  \<open>message\<close> and the trimmed text. The durable backend holds status \<open>denied\<close> and no
  text: \<open>KVStore.setDecision\<close> maps every decision other than an approval to denied and
  has no message parameter.
\<close>

theorem kv_message_stored_as_denied:
  "fst (handleCardAction None 600 600 600 True kvWorld sampleMessage)
     = (200, Toast Success ''Message sent successfully'') \<and>
   map_option status
     (stored_at 600 (backend (snd (handleCardAction None 600 600 600 True kvWorld sampleMessage)))
        ''r1'') = Some Denied \<and>
   map_option storedMessage
     (stored_at 600 (backend (snd (handleCardAction None 600 600 600 True kvWorld sampleMessage)))
        ''r1'') = Some None \<and>
   map_option storedMessage
     (stored_at 600 (backend (snd (handleCardAction None 600 600 600 True memoryWorld sampleMessage)))
        ''r1'') = Some (Some ''retry with sudo'') \<and>
   map_option status
     (stored_at 600 (backend (snd (handleCardAction None 600 600 600 True memoryWorld sampleMessage)))
        ''r1'') = Some MessageStatus"
  by code_simp

text \<open>The stored statuses of the two backends after that action, side by side.\<close>

theorem kv_message_stored_as_denied_witness:
  "map_option status
     (stored_at 600 (backend (snd (handleCardAction None 600 600 600 True kvWorld sampleMessage)))
        ''r1'') = Some Denied \<and>
   map_option status
     (stored_at 600 (backend (snd (handleCardAction None 600 600 600 True memoryWorld sampleMessage)))
        ''r1'') = Some MessageStatus"
  using kv_message_stored_as_denied by simp

text \<open>
  In the volatile backend the property holds in general: an accepted message-kind action
  with non-blank text on a pending record, all of whose instants precede the expiry,
  leaves the record with status \<open>message\<close> and a decision carrying the trimmed text, the
  instant of the store call and the operator.
\<close>

theorem memory_message_decision:
  "store s rid = Some r \<and> status r = Pending \<and> tOp < expiresAt (request r) \<and>
   tGet < expiresAt (request r) \<and> tNow < expiresAt (request r) \<and>
   (\<not> truthy vt \<or> vt = Some (header_token body)) \<and>
   value_requestId body = Some rid \<and> rid \<noteq> [] \<and>
   value_decision body = Some ''message'' \<and> rawUserMessage body = Some m \<and> trim m \<noteq> [] \<longrightarrow>
     raw_record
       (backend (snd (handleCardAction vt tGet tNow tOp larkOk
                        \<lparr>backend = MemoryBackend s, larkLog = l\<rparr> body))) rid
       = Some (r\<lparr>status := MessageStatus,
                  decision := Some \<lparr>d_requestId = rid, d_decision = Message,
                                    d_message = Some (trim m), respondedAt = tOp,
                                    respondedBy = Some (operator_open_id body)\<rparr>\<rparr>)"
proof (intro impI, elim conjE)
  assume a: "store s rid = Some r" "status r = Pending" "tOp < expiresAt (request r)"
    "tGet < expiresAt (request r)" "tNow < expiresAt (request r)"
    "\<not> truthy vt \<or> vt = Some (header_token body)"
    "value_requestId body = Some rid" "rid \<noteq> []"
    "value_decision body = Some ''message''" "rawUserMessage body = Some m" "trim m \<noteq> []"
  have tok: "(truthy vt \<and>
      \<not> (case vt of Some v \<Rightarrow> verifyEventToken (header_token body) v | None \<Rightarrow> False))
      = False"
    using a(6) by (auto simp: truthy_def verifyEventToken_def split: option.splits)
  have tr: "truthy (value_requestId body)" "truthy (value_decision body)"
    using a by (simp_all add: truthy_def)
  from a(11) have "m \<noteq> []" using trim_Nil by auto
  then have h: "handleCardAction vt tGet tNow tOp larkOk \<lparr>backend = MemoryBackend s, larkLog = l\<rparr> body
     = processCardAction tGet tNow tOp larkOk \<lparr>backend = MemoryBackend s, larkLog = l\<rparr> rid Message
         (operator_open_id body) (Some (trim m))"
    using tr a by (simp add: handleCardAction_def tok parseDecision_def)
  show "raw_record
       (backend (snd (handleCardAction vt tGet tNow tOp larkOk
                        \<lparr>backend = MemoryBackend s, larkLog = l\<rparr> body))) rid
       = Some (r\<lparr>status := MessageStatus,
                  decision := Some \<lparr>d_requestId = rid, d_decision = Message,
                                    d_message = Some (trim m), respondedAt = tOp,
                                    respondedBy = Some (operator_open_id body)\<rparr>\<rparr>)"
    unfolding h using a(1-5)
    by (simp add: processCardAction_def Memory_get_def Memory_setDecision_def Let_def
          split: option.splits)
qed

text \<open>The theorem at the specification's example.\<close>

theorem memory_message_decision_witness:
  "rawUserMessage sampleMessage = Some ''  retry with sudo  '' \<and>
   trim ''  retry with sudo  '' = ''retry with sudo'' \<and>
   raw_record (backend (snd (handleCardAction None 600 600 600 True memoryWorld sampleMessage))) ''r1''
     = Some ((samplePending 1000)\<lparr>status := MessageStatus,
               decision := Some \<lparr>d_requestId = ''r1'', d_decision = Message,
                                 d_message = Some ''retry with sudo'', respondedAt = 600,
                                 respondedBy = Some ''ou_1''\<rparr>\<rparr>)"
proof -
  have m: "store sampleMemory ''r1'' = Some (samplePending 1000)"
    by (simp add: sample_defs)
  have p: "status (samplePending 1000) = Pending"
    "expiresAt (request (samplePending 1000)) = 1000"
    by (simp_all add: sample_defs)
  have b: "value_requestId sampleMessage = Some ''r1''"
    "value_decision sampleMessage = Some ''message''"
    "rawUserMessage sampleMessage = Some ''  retry with sudo  ''"
    "operator_open_id sampleMessage = ''ou_1''"
    by (simp_all add: sampleMessage_def rawUserMessage_def truthy_def)
  have t: "trim ''  retry with sudo  '' = ''retry with sudo''" by code_simp
  have v: "\<not> truthy None" by (simp add: truthy_def)
  show ?thesis
    using memory_message_decision [of sampleMemory "''r1''" "samplePending 1000" 600 600 600 None
        sampleMessage "''  retry with sudo  ''" True "[]"] m p b t v
    by (simp add: memoryWorld_def)
qed


section \<open>Expiry on touch\<close>

lemma memory_touch_expires:
  assumes "store s rid = Some r" "status r = Pending" "decision r = None"
    "expiresAt (request r) \<le> tGet" "rid \<noteq> []" "verifyApiKey apiKey authHeader"
  shows "store_get tGet (MemoryBackend s) rid
           = (Some (r\<lparr>status := Expired\<rparr>),
              MemoryBackend (s\<lparr>store := (store s)(rid \<mapsto> r\<lparr>status := Expired\<rparr>)\<rparr>))"
    and "status_handler ''GET'' apiKey authHeader (Some rid) tGet tNow tOp (MemoryBackend s)
           = ((200, ApiData expiredAnswer),
              MemoryBackend (s\<lparr>store := (store s)(rid \<mapsto> r\<lparr>status := Expired\<rparr>)\<rparr>))"
    and "processCardAction tGet tNow tOp larkOk \<lparr>backend = MemoryBackend s, larkLog = l\<rparr> rid dec
             openId um
           = ((200, Toast Info ''Request already expired''),
              \<lparr>backend = MemoryBackend (s\<lparr>store := (store s)(rid \<mapsto> r\<lparr>status := Expired\<rparr>)\<rparr>),
               larkLog = l\<rparr>)"
  using assms
  by (simp_all add: Memory_get_def status_handler_def processCardAction_def statusOf_def
        expiredAnswer_def statusText_def Let_def)

lemma memory_expired_fixed:
  assumes "store s rid = Some r" "status r = Expired" "decision r = None"
    "rid \<noteq> []" "verifyApiKey apiKey authHeader"
  shows "store_get tGet (MemoryBackend s) rid = (Some r, MemoryBackend s)"
    and "status_handler ''GET'' apiKey authHeader (Some rid) tGet tNow tOp (MemoryBackend s)
           = ((200, ApiData expiredAnswer), MemoryBackend s)"
    and "processCardAction tGet tNow tOp larkOk \<lparr>backend = MemoryBackend s, larkLog = l\<rparr> rid dec
             openId um
           = ((200, Toast Info ''Request already expired''),
              \<lparr>backend = MemoryBackend s, larkLog = l\<rparr>)"
  using assms
  by (simp_all add: Memory_get_def status_handler_def processCardAction_def statusOf_def
        expiredAnswer_def statusText_def Let_def)

lemma kv_readable_earlier:
  "KV_get tOp kv rid = Some r \<Longrightarrow> tGet \<le> tOp \<Longrightarrow> KV_get tGet kv rid = Some r"
  by (auto simp: KV_get_def kv_get_def split: option.splits if_splits)

lemma kv_touch_expires:
  assumes "KV_get tOp kv rid = Some r" "tGet \<le> tOp" "status r = Pending"
    "expiresAt (request r) \<le> tNow" "rid \<noteq> []" "verifyApiKey apiKey authHeader"
  shows "store_get tGet (KVBackend kv) rid = (Some r, KVBackend kv)"
    and "status_handler ''GET'' apiKey authHeader (Some rid) tGet tNow tOp (KVBackend kv)
           = ((200, ApiData expiredAnswer),
              KVBackend (kv_set tOp kv (getKey rid) (r\<lparr>status := Expired\<rparr>) 60))"
    and "backend (snd (processCardAction tGet tNow tOp larkOk \<lparr>backend = KVBackend kv, larkLog = l\<rparr>
                         rid dec openId um))
           = KVBackend (kv_set tOp kv (getKey rid) (r\<lparr>status := Expired\<rparr>) 60)"
    and "fst (processCardAction tGet tNow tOp larkOk \<lparr>backend = KVBackend kv, larkLog = l\<rparr>
                         rid dec openId um)
           = (200, Toast ErrorToast
                (if larkOk \<or> \<not> truthy (larkMessageId r) then ''Request has expired''
                 else ''Failed to process action''))"
  using assms kv_readable_earlier [OF assms(1,2)]
  by (auto simp: status_handler_def processCardAction_def KV_setExpired_def expiredAnswer_def
        truthy_def Let_def split: option.splits)

lemma kv_expired_fixed:
  assumes "KV_get tGet kv rid = Some r" "status r = Expired" "decision r = None"
    "rid \<noteq> []" "verifyApiKey apiKey authHeader"
  shows "store_get tGet (KVBackend kv) rid = (Some r, KVBackend kv)"
    and "status_handler ''GET'' apiKey authHeader (Some rid) tGet tNow tOp (KVBackend kv)
           = ((200, ApiData expiredAnswer), KVBackend kv)"
    and "processCardAction tGet tNow tOp larkOk \<lparr>backend = KVBackend kv, larkLog = l\<rparr> rid dec
             openId um
           = ((200, Toast Info ''Request already expired''),
              \<lparr>backend = KVBackend kv, larkLog = l\<rparr>)"
  using assms
  by (simp_all add: status_handler_def processCardAction_def statusOf_def
        expiredAnswer_def statusText_def Let_def)


lemma kv_lapsed_not_found:
  assumes "KV_get tGet kv rid = None" "rid \<noteq> []" "verifyApiKey apiKey authHeader"
  shows "status_handler ''GET'' apiKey authHeader (Some rid) tGet tNow tOp (KVBackend kv)
           = ((200, ApiData notFoundAnswer), KVBackend kv)"
  using assms by (simp add: status_handler_def notFoundAnswer_def)

lemma kv_get_after_set:
  "KV_get t (kv_set tOp kv (getKey rid) v ex) rid = (if t < tOp + ex * 1000 then Some v else None)"
  by (simp add: KV_get_def kv_get_def kv_set_def)

text \<open>
  C2, as the code has it. Volatile backend: for a stored record that is pending, has no
  decision and is at or past its expiry at the instant of the read, \<open>get\<close> returns it as
  expired, an authorised poll answers expired and an accepted action event is told the
  request is already expired; each leaves the record expired in the store, and from that
  store every later \<open>get\<close>, poll and action event, at any instants, yields the same and
  changes nothing. Durable backend: for a record that is pending, has no decision, is
  still readable when the handler's store call runs and is at or past its expiry at the
  handler's own clock reading, \<open>get\<close> returns the record as stored (still pending)
  and writes nothing; an authorised poll answers expired; an accepted action event is
  answered with the toast that the request has expired, or, when the record has a card
  and creating the chat client or updating the card throws, with the toast that the
  action failed; poll and action event alike rewrite the record as expired with a
  storage lifetime of 60 seconds; within those 60 seconds \<open>get\<close> returns the record as expired, a poll answers
  expired, an action event is told the request is already expired, and none of them
  changes anything; from then on a poll answers \<open>not_found\<close>.
\<close>

theorem expired_on_touch:
  "(store s rid = Some r \<and> status r = Pending \<and> decision r = None \<and>
    expiresAt (request r) \<le> tGet \<and> rid \<noteq> [] \<and> verifyApiKey apiKey authHeader \<longrightarrow>
      (let s' = s\<lparr>store := (store s)(rid \<mapsto> r\<lparr>status := Expired\<rparr>)\<rparr> in
         store_get tGet (MemoryBackend s) rid = (Some (r\<lparr>status := Expired\<rparr>), MemoryBackend s') \<and>
         status_handler ''GET'' apiKey authHeader (Some rid) tGet tNow tOp (MemoryBackend s)
           = ((200, ApiData expiredAnswer), MemoryBackend s') \<and>
         (touchesStore vt body rid \<longrightarrow>
            handleCardAction vt tGet tNow tOp larkOk \<lparr>backend = MemoryBackend s, larkLog = l\<rparr> body
              = ((200, Toast Info ''Request already expired''),
                 \<lparr>backend = MemoryBackend s', larkLog = l\<rparr>)) \<and>
         (\<forall>t1 t2 t3.
            store_get t1 (MemoryBackend s') rid
              = (Some (r\<lparr>status := Expired\<rparr>), MemoryBackend s') \<and>
            status_handler ''GET'' apiKey authHeader (Some rid) t1 t2 t3 (MemoryBackend s')
              = ((200, ApiData expiredAnswer), MemoryBackend s') \<and>
            (touchesStore vt body rid \<longrightarrow>
               handleCardAction vt t1 t2 t3 larkOk \<lparr>backend = MemoryBackend s', larkLog = l\<rparr> body
                 = ((200, Toast Info ''Request already expired''),
                    \<lparr>backend = MemoryBackend s', larkLog = l\<rparr>))))) \<and>
   (KV_get tOp' kv rid' = Some rk \<and> tGet' \<le> tOp' \<and> status rk = Pending \<and> decision rk = None \<and>
    expiresAt (request rk) \<le> tNow' \<and> rid' \<noteq> [] \<and> verifyApiKey apiKey' authHeader' \<longrightarrow>
      (let kv' = kv_set tOp' kv (getKey rid') (rk\<lparr>status := Expired\<rparr>) 60 in
         store_get tGet' (KVBackend kv) rid' = (Some rk, KVBackend kv) \<and>
         status_handler ''GET'' apiKey' authHeader' (Some rid') tGet' tNow' tOp' (KVBackend kv)
           = ((200, ApiData expiredAnswer), KVBackend kv') \<and>
         (touchesStore vt' body' rid' \<longrightarrow>
            backend (snd (handleCardAction vt' tGet' tNow' tOp' larkOk'
                            \<lparr>backend = KVBackend kv, larkLog = l'\<rparr> body')) = KVBackend kv' \<and>
            fst (handleCardAction vt' tGet' tNow' tOp' larkOk'
                   \<lparr>backend = KVBackend kv, larkLog = l'\<rparr> body')
              = (200, Toast ErrorToast
                   (if larkOk' \<or> \<not> truthy (larkMessageId rk) then ''Request has expired''
                    else ''Failed to process action''))) \<and>
         (\<forall>t1 t2 t3. t1 < tOp' + 60000 \<longrightarrow>
            store_get t1 (KVBackend kv') rid' = (Some (rk\<lparr>status := Expired\<rparr>), KVBackend kv') \<and>
            status_handler ''GET'' apiKey' authHeader' (Some rid') t1 t2 t3 (KVBackend kv')
              = ((200, ApiData expiredAnswer), KVBackend kv') \<and>
            (touchesStore vt' body' rid' \<longrightarrow>
               handleCardAction vt' t1 t2 t3 larkOk' \<lparr>backend = KVBackend kv', larkLog = l'\<rparr> body'
                 = ((200, Toast Info ''Request already expired''),
                    \<lparr>backend = KVBackend kv', larkLog = l'\<rparr>))) \<and>
         (\<forall>t1 t2 t3. tOp' + 60000 \<le> t1 \<longrightarrow>
            status_handler ''GET'' apiKey' authHeader' (Some rid') t1 t2 t3 (KVBackend kv')
              = ((200, ApiData notFoundAnswer), KVBackend kv'))))"
proof (intro conjI impI; elim conjE)
  assume a: "store s rid = Some r" "status r = Pending" "decision r = None"
    "expiresAt (request r) \<le> tGet" "rid \<noteq> []" "verifyApiKey apiKey authHeader"
  define s' where "s' = s\<lparr>store := (store s)(rid \<mapsto> r\<lparr>status := Expired\<rparr>)\<rparr>"
  have e: "store s' rid = Some (r\<lparr>status := Expired\<rparr>)" "status (r\<lparr>status := Expired\<rparr>) = Expired"
    "decision (r\<lparr>status := Expired\<rparr>) = None"
    using a by (simp_all add: s'_def)
  note first = memory_touch_expires [OF a, folded s'_def]
  note later = memory_expired_fixed [OF e a(5,6)]
  have cb1: "handleCardAction vt tGet tNow tOp larkOk \<lparr>backend = MemoryBackend s, larkLog = l\<rparr> body
              = ((200, Toast Info ''Request already expired''),
                 \<lparr>backend = MemoryBackend s', larkLog = l\<rparr>)" if "touchesStore vt body rid"
    using handleCardAction_touches [OF that, of tGet tNow tOp larkOk
        "\<lparr>backend = MemoryBackend s, larkLog = l\<rparr>"] first(3)
    by auto
  have cb2: "handleCardAction vt t1 t2 t3 larkOk \<lparr>backend = MemoryBackend s', larkLog = l\<rparr> body
              = ((200, Toast Info ''Request already expired''),
                 \<lparr>backend = MemoryBackend s', larkLog = l\<rparr>)" if "touchesStore vt body rid"
    for t1 t2 t3
    using handleCardAction_touches [OF that, of t1 t2 t3 larkOk
        "\<lparr>backend = MemoryBackend s', larkLog = l\<rparr>"] later(3)
    by auto
  show "let s' = s\<lparr>store := (store s)(rid \<mapsto> r\<lparr>status := Expired\<rparr>)\<rparr> in
         store_get tGet (MemoryBackend s) rid = (Some (r\<lparr>status := Expired\<rparr>), MemoryBackend s') \<and>
         status_handler ''GET'' apiKey authHeader (Some rid) tGet tNow tOp (MemoryBackend s)
           = ((200, ApiData expiredAnswer), MemoryBackend s') \<and>
         (touchesStore vt body rid \<longrightarrow>
            handleCardAction vt tGet tNow tOp larkOk \<lparr>backend = MemoryBackend s, larkLog = l\<rparr> body
              = ((200, Toast Info ''Request already expired''),
                 \<lparr>backend = MemoryBackend s', larkLog = l\<rparr>)) \<and>
         (\<forall>t1 t2 t3.
            store_get t1 (MemoryBackend s') rid
              = (Some (r\<lparr>status := Expired\<rparr>), MemoryBackend s') \<and>
            status_handler ''GET'' apiKey authHeader (Some rid) t1 t2 t3 (MemoryBackend s')
              = ((200, ApiData expiredAnswer), MemoryBackend s') \<and>
            (touchesStore vt body rid \<longrightarrow>
               handleCardAction vt t1 t2 t3 larkOk \<lparr>backend = MemoryBackend s', larkLog = l\<rparr> body
                 = ((200, Toast Info ''Request already expired''),
                    \<lparr>backend = MemoryBackend s', larkLog = l\<rparr>)))"
    unfolding Let_def s'_def [symmetric]
    using first(1,2) later(1,2) cb1 cb2 by blast
next
  assume a: "KV_get tOp' kv rid' = Some rk" "tGet' \<le> tOp'" "status rk = Pending"
    "decision rk = None" "expiresAt (request rk) \<le> tNow'" "rid' \<noteq> []"
    "verifyApiKey apiKey' authHeader'"
  define kv' where "kv' = kv_set tOp' kv (getKey rid') (rk\<lparr>status := Expired\<rparr>) 60"
  note first = kv_touch_expires [OF a(1,2,3,5,6,7), folded kv'_def]
  have g: "KV_get t kv' rid' = (if t < tOp' + 60000 then Some (rk\<lparr>status := Expired\<rparr>) else None)"
    for t
    by (simp add: kv'_def kv_get_after_set)
  have later: "store_get t1 (KVBackend kv') rid' = (Some (rk\<lparr>status := Expired\<rparr>), KVBackend kv')"
    "status_handler ''GET'' apiKey' authHeader' (Some rid') t1 t2 t3 (KVBackend kv')
              = ((200, ApiData expiredAnswer), KVBackend kv')"
    "processCardAction t1 t2 t3 larkOk' \<lparr>backend = KVBackend kv', larkLog = l'\<rparr> rid' dec openId um
           = ((200, Toast Info ''Request already expired''),
              \<lparr>backend = KVBackend kv', larkLog = l'\<rparr>)"
    if "t1 < tOp' + 60000" for t1 t2 t3 dec openId um
    using kv_expired_fixed [of t1 kv' rid' "rk\<lparr>status := Expired\<rparr>" apiKey' authHeader']
      g [of t1] that a by simp_all
  have gone: "status_handler ''GET'' apiKey' authHeader' (Some rid') t1 t2 t3 (KVBackend kv')
              = ((200, ApiData notFoundAnswer), KVBackend kv')" if "tOp' + 60000 \<le> t1" for t1 t2 t3
    using kv_lapsed_not_found [of t1 kv' rid' apiKey' authHeader'] g [of t1] that a by simp
  have cb1: "backend (snd (handleCardAction vt' tGet' tNow' tOp' larkOk'
                            \<lparr>backend = KVBackend kv, larkLog = l'\<rparr> body')) = KVBackend kv' \<and>
            fst (handleCardAction vt' tGet' tNow' tOp' larkOk'
                   \<lparr>backend = KVBackend kv, larkLog = l'\<rparr> body')
              = (200, Toast ErrorToast
                   (if larkOk' \<or> \<not> truthy (larkMessageId rk) then ''Request has expired''
                    else ''Failed to process action''))" if "touchesStore vt' body' rid'"
    using handleCardAction_touches [OF that, of tGet' tNow' tOp' larkOk'
        "\<lparr>backend = KVBackend kv, larkLog = l'\<rparr>"] first(3,4)
    by auto
  have cb2: "handleCardAction vt' t1 t2 t3 larkOk' \<lparr>backend = KVBackend kv', larkLog = l'\<rparr> body'
                 = ((200, Toast Info ''Request already expired''),
                    \<lparr>backend = KVBackend kv', larkLog = l'\<rparr>)"
    if "touchesStore vt' body' rid'" "t1 < tOp' + 60000" for t1 t2 t3
    using handleCardAction_touches [OF that(1), of t1 t2 t3 larkOk'
        "\<lparr>backend = KVBackend kv', larkLog = l'\<rparr>"] later(3) [OF that(2)]
    by auto
  show "let kv' = kv_set tOp' kv (getKey rid') (rk\<lparr>status := Expired\<rparr>) 60 in
         store_get tGet' (KVBackend kv) rid' = (Some rk, KVBackend kv) \<and>
         status_handler ''GET'' apiKey' authHeader' (Some rid') tGet' tNow' tOp' (KVBackend kv)
           = ((200, ApiData expiredAnswer), KVBackend kv') \<and>
         (touchesStore vt' body' rid' \<longrightarrow>
            backend (snd (handleCardAction vt' tGet' tNow' tOp' larkOk'
                            \<lparr>backend = KVBackend kv, larkLog = l'\<rparr> body')) = KVBackend kv' \<and>
            fst (handleCardAction vt' tGet' tNow' tOp' larkOk'
                   \<lparr>backend = KVBackend kv, larkLog = l'\<rparr> body')
              = (200, Toast ErrorToast
                   (if larkOk' \<or> \<not> truthy (larkMessageId rk) then ''Request has expired''
                    else ''Failed to process action''))) \<and>
         (\<forall>t1 t2 t3. t1 < tOp' + 60000 \<longrightarrow>
            store_get t1 (KVBackend kv') rid' = (Some (rk\<lparr>status := Expired\<rparr>), KVBackend kv') \<and>
            status_handler ''GET'' apiKey' authHeader' (Some rid') t1 t2 t3 (KVBackend kv')
              = ((200, ApiData expiredAnswer), KVBackend kv') \<and>
            (touchesStore vt' body' rid' \<longrightarrow>
               handleCardAction vt' t1 t2 t3 larkOk' \<lparr>backend = KVBackend kv', larkLog = l'\<rparr> body'
                 = ((200, Toast Info ''Request already expired''),
                    \<lparr>backend = KVBackend kv', larkLog = l'\<rparr>))) \<and>
         (\<forall>t1 t2 t3. tOp' + 60000 \<le> t1 \<longrightarrow>
            status_handler ''GET'' apiKey' authHeader' (Some rid') t1 t2 t3 (KVBackend kv')
              = ((200, ApiData notFoundAnswer), KVBackend kv'))"
    unfolding Let_def kv'_def [symmetric]
    using first(1,2) later(1,2) gone cb1 cb2 by blast
qed


text \<open>The theorem at the sample stores: the volatile one touched at the expiry instant,
  the durable one polled just after it, then again 60 seconds later.\<close>

theorem expired_on_touch_witness:
  "status_handler ''GET'' None None (Some ''r1'') 1000 1000 1000 (MemoryBackend sampleMemory)
     = ((200, ApiData expiredAnswer),
        MemoryBackend (sampleMemory\<lparr>store :=
          (store sampleMemory)(''r1'' \<mapsto> (samplePending 1000)\<lparr>status := Expired\<rparr>)\<rparr>)) \<and>
   fst (handleCardAction None 1000 1000 1000 True memoryWorld sampleApprove)
     = (200, Toast Info ''Request already expired'') \<and>
   status_handler ''GET'' None None (Some ''r1'') 1000 1100 1200 (KVBackend sampleKV)
     = ((200, ApiData expiredAnswer),
        KVBackend (kv_set 1200 sampleKV (getKey ''r1'') ((samplePending 1000)\<lparr>status := Expired\<rparr>) 60)) \<and>
   fst (status_handler ''GET'' None None (Some ''r1'') 61199 61199 61199
          (KVBackend (kv_set 1200 sampleKV (getKey ''r1'')
             ((samplePending 1000)\<lparr>status := Expired\<rparr>) 60)))
     = (200, ApiData expiredAnswer) \<and>
   fst (status_handler ''GET'' None None (Some ''r1'') 61200 61200 61200
          (KVBackend (kv_set 1200 sampleKV (getKey ''r1'')
             ((samplePending 1000)\<lparr>status := Expired\<rparr>) 60)))
     = (200, ApiData notFoundAnswer)"
proof -
  have m: "store sampleMemory ''r1'' = Some (samplePending 1000)"
    by (simp add: sample_defs)
  have k: "KV_get 1200 sampleKV ''r1'' = Some (samplePending 1000)"
    by (simp add: sample_defs)
  have p: "status (samplePending 1000) = Pending" "decision (samplePending 1000) = None"
    "expiresAt (request (samplePending 1000)) = 1000"
    by (simp_all add: sample_defs)
  have v: "verifyApiKey None None"
    by (simp add: verifyApiKey_def truthy_def)
  have t: "touchesStore None sampleApprove ''r1''"
    by (simp add: touchesStore_def sampleApprove_def truthy_def)
  show ?thesis
    using expired_on_touch [where s = sampleMemory and rid = "''r1''" and r = "samplePending 1000"
        and tGet = 1000 and tNow = 1000 and tOp = 1000 and apiKey = None and authHeader = None
        and vt = None and body = sampleApprove and larkOk = True and l = "[]"
        and kv = sampleKV and rid' = "''r1''" and rk = "samplePending 1000"
        and tGet' = 1000 and tNow' = 1100 and tOp' = 1200 and apiKey' = None
        and authHeader' = None and vt' = None and body' = sampleApprove and larkOk' = True
        and l' = "[]"]
      m k p v t
    by (simp add: Let_def memoryWorld_def)
qed

text \<open>
  C2 as stated fails in the durable backend. \<open>KVStore.get\<close> at the expiry instant
  returns the sample record as stored, still pending. And expired is not a fixed point
  there: a poll at instant 1000 answers expired and rewrites the record for 60 seconds;
  a poll at 61000 answers \<open>not_found\<close>.
\<close>

theorem kv_get_not_expired_counterexample:
  "status (samplePending 1000) = Pending \<and> decision (samplePending 1000) = None \<and>
   expiresAt (request (samplePending 1000)) \<le> 1000 \<and>
   store_get 1000 (KVBackend sampleKV) ''r1'' = (Some (samplePending 1000), KVBackend sampleKV) \<and>
   fst (status_handler ''GET'' None None (Some ''r1'') 1000 1000 1000 (KVBackend sampleKV))
     = (200, ApiData expiredAnswer) \<and>
   fst (status_handler ''GET'' None None (Some ''r1'') 61000 61000 61000
          (snd (status_handler ''GET'' None None (Some ''r1'') 1000 1000 1000 (KVBackend sampleKV))))
     = (200, ApiData notFoundAnswer)"
  by (simp add: sample_defs status_handler_def verifyApiKey_def truthy_def KV_setExpired_def
        expiredAnswer_def notFoundAnswer_def)


section \<open>Pending after creation\<close>

lemma store_get_after_set:
  "status data = Pending \<Longrightarrow> t < expiresAt (request data) \<Longrightarrow>
     store_get t (store_set tSet st rid data) rid = (Some data, store_set tSet st rid data)"
proof (cases st)
  case (MemoryBackend s)
  assume "status data = Pending" "t < expiresAt (request data)"
  then show ?thesis using MemoryBackend
    by (simp add: Memory_get_def Memory_set_def Let_def)
next
  case (KVBackend kv)
  assume a: "status data = Pending" "t < expiresAt (request data)"
  have "expiresAt (request data) - tSet \<le> 1000 * ceilSeconds (expiresAt (request data) - tSet)"
    by (rule ceilSeconds_ge)
  then have "t < tSet + max 1 (ceilSeconds (expiresAt (request data) - tSet)) * 1000"
    using a(2) by (simp add: max_def)
  then show ?thesis using KVBackend
    by (simp add: KV_get_def kv_get_def KV_set_def kv_set_def Let_def)
qed

lemma timer_after_set:
  "timers (Memory_set tSet s rid data) rid =
     (if expiresAt (request data) - tSet > 0
      then Some (Timeout (tSet + setTimeoutDelay (expiresAt (request data) - tSet)) True)
      else map_option clearTimeout (timers s rid))"
  by (simp add: Memory_set_def Let_def split: option.splits)

lemma timer_not_due_after_set:
  "expiresAt (request data) - tSet \<le> TIMEOUT_MAX \<Longrightarrow> t < expiresAt (request data) \<Longrightarrow>
     \<not> timerDue t (Memory_set tSet s rid data) rid"
  by (cases "timers s rid")
     (auto simp: timerDue_def timer_after_set setTimeoutDelay_def clearTimeout_def)

lemma timer_due_early_after_set:
  "TIMEOUT_MAX < expiresAt (request data) - tSet \<Longrightarrow>
     timerDue (tSet + 1) (Memory_set tSet s rid data) rid"
  by (auto simp: timerDue_def timer_after_set setTimeoutDelay_def TIMEOUT_MAX_def)

text \<open>
  In either backend, a create request with its required fields, sent by an authorised
  caller and delivered to the chat, is answered 200 with the identifier and
  \<open>expiresAt = now + timeout\<close>; from the world it leaves, every authorised poll of that
  identifier whose clock readings precede \<open>expiresAt\<close> answers pending and changes
  nothing. In the volatile backend the timer armed by the write is not due before
  \<open>expiresAt\<close> as long as its delay is within the runtime's limit; beyond that limit it
  is due one millisecond after the write.
\<close>

theorem pending_after_creation:
  "n_tool body = Some bodyTool \<and> bodyTool \<noteq> [] \<and>
   n_workingDirectory body = Some bodyDir \<and> bodyDir \<noteq> [] \<and>
   uuid \<noteq> [] \<and> verifyApiKey apiKey authHeader \<longrightarrow>
     (\<exists>expires w'.
        notify_handler ''POST'' apiKey authHeader larkTimeout uuid now tSet (Inr mid) w body
          = ((200, ApiData \<lparr>r_requestId = uuid, r_expiresAt = expires\<rparr>), w') \<and>
        expires = now + (case larkTimeout of
                           Some t \<Rightarrow> if t \<noteq> 0 then t else DEFAULT_TIMEOUT
                         | None \<Rightarrow> DEFAULT_TIMEOUT) \<and>
        (\<forall>tGet tNow tOp. tGet < expires \<and> tNow < expires \<longrightarrow>
           status_handler ''GET'' apiKey authHeader (Some uuid) tGet tNow tOp (backend w')
             = ((200, ApiData pendingAnswer), backend w')) \<and>
        (\<forall>s' t. backend w' = MemoryBackend s' \<and> expires - tSet \<le> TIMEOUT_MAX \<and> t < expires
           \<longrightarrow> \<not> timerDue t s' uuid) \<and>
        (\<forall>s'. backend w' = MemoryBackend s' \<and> TIMEOUT_MAX < expires - tSet
           \<longrightarrow> timerDue (tSet + 1) s' uuid))"
proof (intro impI, elim conjE)
  assume a: "n_tool body = Some bodyTool" "bodyTool \<noteq> []"
    "n_workingDirectory body = Some bodyDir" "bodyDir \<noteq> []" "uuid \<noteq> []"
    "verifyApiKey apiKey authHeader"
  define pr where "pr = buildPermissionRequest larkTimeout uuid now bodyTool bodyDir body"
  define data where "data = \<lparr>request = pr, status = Pending, decision = None,
      larkMessageId = Some mid, createdAt = now\<rparr>"
  define w' where "w' = \<lparr>backend = store_set tSet (backend w) uuid data,
      larkLog = larkLog w @ [SendPermissionRequest pr]\<rparr>"
  have h: "notify_handler ''POST'' apiKey authHeader larkTimeout uuid now tSet (Inr mid) w body
      = ((200, ApiData \<lparr>r_requestId = uuid, r_expiresAt = expiresAt pr\<rparr>), w')"
    using notify_handler_created [OF a(1) a(3) refl a(6) a(2) a(4), of larkTimeout uuid now tSet mid w]
    by (simp add: pr_def data_def w'_def)
  have e: "expiresAt pr = now + (case larkTimeout of
                           Some t \<Rightarrow> if t \<noteq> 0 then t else DEFAULT_TIMEOUT
                         | None \<Rightarrow> DEFAULT_TIMEOUT)"
    by (simp add: pr_def buildPermissionRequest_def Let_def)
  have p: "status_handler ''GET'' apiKey authHeader (Some uuid) tGet tNow tOp (backend w')
             = ((200, ApiData pendingAnswer), backend w')"
    if "tGet < expiresAt pr" "tNow < expiresAt pr" for tGet tNow tOp
  proof -
    have "store_get tGet (backend w') uuid = (Some data, backend w')"
      using store_get_after_set [of data tGet tSet "backend w" uuid] that(1)
      by (simp add: w'_def data_def)
    then show ?thesis
      using a(5,6) that(2)
      by (simp add: status_handler_def statusOf_def pendingAnswer_def data_def)
  qed
  have rq: "expiresAt (request data) = expiresAt pr"
    by (simp add: data_def)
  have q: "\<not> timerDue t s' uuid"
    if "backend w' = MemoryBackend s'" "expiresAt pr - tSet \<le> TIMEOUT_MAX" "t < expiresAt pr"
    for s' t
  proof (cases "backend w")
    case (MemoryBackend s)
    with that(1) have "s' = Memory_set tSet s uuid data" by (simp add: w'_def)
    then show ?thesis
      using timer_not_due_after_set [of data tSet t s uuid] that(2,3) rq by simp
  next
    case (KVBackend kv)
    with that(1) show ?thesis by (simp add: w'_def)
  qed
  have d: "timerDue (tSet + 1) s' uuid"
    if "backend w' = MemoryBackend s'" "TIMEOUT_MAX < expiresAt pr - tSet" for s'
  proof (cases "backend w")
    case (MemoryBackend s)
    with that(1) have "s' = Memory_set tSet s uuid data" by (simp add: w'_def)
    then show ?thesis
      using timer_due_early_after_set [of data tSet s uuid] that(2) rq by simp
  next
    case (KVBackend kv)
    with that(1) show ?thesis by (simp add: w'_def)
  qed
  show "\<exists>expires w'.
        notify_handler ''POST'' apiKey authHeader larkTimeout uuid now tSet (Inr mid) w body
          = ((200, ApiData \<lparr>r_requestId = uuid, r_expiresAt = expires\<rparr>), w') \<and>
        expires = now + (case larkTimeout of
                           Some t \<Rightarrow> if t \<noteq> 0 then t else DEFAULT_TIMEOUT
                         | None \<Rightarrow> DEFAULT_TIMEOUT) \<and>
        (\<forall>tGet tNow tOp. tGet < expires \<and> tNow < expires \<longrightarrow>
           status_handler ''GET'' apiKey authHeader (Some uuid) tGet tNow tOp (backend w')
             = ((200, ApiData pendingAnswer), backend w')) \<and>
        (\<forall>s' t. backend w' = MemoryBackend s' \<and> expires - tSet \<le> TIMEOUT_MAX \<and> t < expires
           \<longrightarrow> \<not> timerDue t s' uuid) \<and>
        (\<forall>s'. backend w' = MemoryBackend s' \<and> TIMEOUT_MAX < expires - tSet
           \<longrightarrow> timerDue (tSet + 1) s' uuid)"
    apply (rule exI [of _ "expiresAt pr"])
    apply (rule exI [of _ w'])
    using h e p q d by blast
qed

text \<open>The theorem at the sample create request, polled one millisecond before its
  expiry.\<close>

theorem pending_after_creation_witness:
  "fst (notify_handler ''POST'' None None None ''id-1'' 0 5 (Inr ''om_1'') emptyWorld sampleCreate)
     = (200, ApiData \<lparr>r_requestId = ''id-1'', r_expiresAt = 300000\<rparr>) \<and>
   fst (status_handler ''GET'' None None (Some ''id-1'') 299999 299999 299999
          (backend (snd (notify_handler ''POST'' None None None ''id-1'' 0 5 (Inr ''om_1'')
                           emptyWorld sampleCreate))))
     = (200, ApiData pendingAnswer)"
proof -
  have a: "n_tool sampleCreate = Some ''Bash''" "n_workingDirectory sampleCreate = Some ''/home/u/app''"
    by (simp_all add: sampleCreate_def)
  have v: "verifyApiKey None None" by (simp add: verifyApiKey_def truthy_def)
  from pending_after_creation [of sampleCreate "''Bash''" "''/home/u/app''" "''id-1''" None None
      None 0 5 "''om_1''" emptyWorld] a v
  obtain w' where
    h: "notify_handler ''POST'' None None None ''id-1'' 0 5 (Inr ''om_1'') emptyWorld sampleCreate
          = ((200, ApiData \<lparr>r_requestId = ''id-1'', r_expiresAt = 0 + DEFAULT_TIMEOUT\<rparr>), w')"
    and p: "\<forall>tGet tNow tOp. tGet < 0 + DEFAULT_TIMEOUT \<and> tNow < 0 + DEFAULT_TIMEOUT \<longrightarrow>
           status_handler ''GET'' None None (Some ''id-1'') tGet tNow tOp (backend w')
             = ((200, ApiData pendingAnswer), backend w')"
    by auto
  show ?thesis
    using h p [rule_format, of 299999 299999 299999]
    by (simp add: DEFAULT_TIMEOUT_def)
qed


end
